theory Spec2Isabelle
  imports Main
begin

section \<open>JavaScript values and JSON\<close>

text \<open>
  The session client and the RPC handler manager pass untyped JSON documents around
  (metadata, agent state, RPC params and results, message bodies). They are modelled by
  one datatype of values. Numbers are integers (version numbers and token counts are);
  an object is its list of properties in insertion order; strings are \<^typ>\<open>string\<close>.
\<close>

datatype jsval =
    JUndefined
  | JNull
  | JBool bool
  | JNum int
  | JStr string
  | JArr "jsval list"
  | JObj "(string \<times> jsval) list"

text \<open>What a \<^verbatim>\<open>throw\<close> carries: an \<^verbatim>\<open>Error\<close> object with its message, or any other value.\<close>

datatype thrown = ErrorObj string | NonError jsval

text \<open>The truthiness test of \<^verbatim>\<open>v ? a : b\<close>, \<^verbatim>\<open>v || d\<close> and \<^verbatim>\<open>v && w\<close>.\<close>

fun truthy :: "jsval \<Rightarrow> bool" where
  "truthy JUndefined = False"
| "truthy JNull = False"
| "truthy (JBool b) = b"
| "truthy (JNum n) = (n \<noteq> 0)"
| "truthy (JStr s) = (s \<noteq> [])"
| "truthy (JArr xs) = True"
| "truthy (JObj ps) = True"

text \<open>
  Property read \<^verbatim>\<open>v.k\<close>: a \<^verbatim>\<open>TypeError\<close> on \<^verbatim>\<open>undefined\<close> and \<^verbatim>\<open>null\<close>,
  \<^verbatim>\<open>undefined\<close> for a property that is not there. The property names read here
  (\<^verbatim>\<open>t\<close>, \<^verbatim>\<open>c\<close>) are ones no primitive or array has.
\<close>

fun getProp :: "jsval \<Rightarrow> string \<Rightarrow> thrown + jsval" where
  "getProp JUndefined k = Inl (ErrorObj (''Cannot read properties of undefined (reading '' @ [CHR 0x27] @ k @ [CHR 0x27] @ '')''))"
| "getProp JNull k = Inl (ErrorObj (''Cannot read properties of null (reading '' @ [CHR 0x27] @ k @ [CHR 0x27] @ '')''))"
| "getProp (JObj ps) k = Inr (case map_of ps k of None \<Rightarrow> JUndefined | Some v \<Rightarrow> v)"
| "getProp v k = Inr JUndefined"

subsection \<open>\<^verbatim>\<open>JSON.stringify\<close>\<close>

fun digits :: "nat \<Rightarrow> string" where
  "digits n = (if n < 10 then [char_of (48 + n)] else digits (n div 10) @ [char_of (48 + n mod 10)])"

definition showInt :: "int \<Rightarrow> string" where
  "showInt i = (if i < 0 then CHR ''-'' # digits (nat (- i)) else digits (nat i))"

definition hexDigit :: "nat \<Rightarrow> char" where
  "hexDigit d = (if d < 10 then char_of (48 + d) else char_of (87 + d))"

text \<open>
  String quoting of \<^verbatim>\<open>JSON.stringify\<close>: the double quote and the backslash are escaped,
  control characters below U+0020 are written with their short escape or as
  \<^verbatim>\<open>\u00XX\<close>, everything else is copied.
\<close>

definition escapeChar :: "char \<Rightarrow> string" where
  "escapeChar c =
     (if c = CHR 0x22 then [CHR 0x5C, CHR 0x22]
      else if c = CHR 0x5C then [CHR 0x5C, CHR 0x5C]
      else if c = CHR 0x08 then [CHR 0x5C, CHR ''b'']
      else if c = CHR 0x09 then [CHR 0x5C, CHR ''t'']
      else if c = CHR 0x0A then [CHR 0x5C, CHR ''n'']
      else if c = CHR 0x0C then [CHR 0x5C, CHR ''f'']
      else if c = CHR 0x0D then [CHR 0x5C, CHR ''r'']
      else if (of_char c :: nat) < 32
        then [CHR 0x5C, CHR ''u'', CHR ''0'', CHR ''0'',
              hexDigit (of_char c div 16), hexDigit (of_char c mod 16)]
      else [c])"

definition quoteJSON :: "string \<Rightarrow> string" where
  "quoteJSON s = [CHR 0x22] @ concat (map escapeChar s) @ [CHR 0x22]"

fun joinComma :: "string list \<Rightarrow> string" where
  "joinComma [] = []"
| "joinComma [x] = x"
| "joinComma (x # y # ys) = x @ '','' @ joinComma (y # ys)"

text \<open>
  \<^verbatim>\<open>JSON.stringify(v)\<close>; \<open>None\<close> is the result \<^verbatim>\<open>undefined\<close>. A property whose value is
  \<^verbatim>\<open>undefined\<close> is left out of an object, and written \<^verbatim>\<open>null\<close> in an array.
\<close>

fun stringify :: "jsval \<Rightarrow> string option"
  and stringifyElems :: "jsval list \<Rightarrow> string list"
  and stringifyProps :: "(string \<times> jsval) list \<Rightarrow> string list" where
  "stringify JUndefined = None"
| "stringify JNull = Some ''null''"
| "stringify (JBool b) = Some (if b then ''true'' else ''false'')"
| "stringify (JNum n) = Some (showInt n)"
| "stringify (JStr s) = Some (quoteJSON s)"
| "stringify (JArr xs) = Some (''['' @ joinComma (stringifyElems xs) @ '']'')"
| "stringify (JObj ps) = Some (''{'' @ joinComma (stringifyProps ps) @ ''}'')"
| "stringifyElems [] = []"
| "stringifyElems (x # xs) =
     (case stringify x of None \<Rightarrow> ''null'' | Some s \<Rightarrow> s) # stringifyElems xs"
| "stringifyProps [] = []"
| "stringifyProps (p # ps) =
     (case stringify (snd p) of
        None \<Rightarrow> stringifyProps ps
      | Some s \<Rightarrow> (quoteJSON (fst p) @ '':'' @ s) # stringifyProps ps)"

text \<open>
  \<^verbatim>\<open>JSON.parse\<close> is the runtime's; every function that calls it takes it as the
  parameter \<open>parse\<close>, with \<open>None\<close> for the \<^verbatim>\<open>SyntaxError\<close> it throws. All results below
  hold for every such function.
\<close>

type_synonym jsonParse = "string \<Rightarrow> jsval option"

section \<open>RpcHandlerManager\<close>

text \<open>
  An RPC handler takes the parsed params and returns a result or throws. The handler map
  is a JavaScript \<^verbatim>\<open>Map\<close>: keys are unique and iteration follows insertion order, so it is
  an association list updated in place. The transport is the socket handed over by
  \<^verbatim>\<open>onSocketConnect\<close>; each \<^verbatim>\<open>socket.emit('rpc-register', {method})\<close> is recorded in
  \<open>announced\<close> with the socket it went to.
\<close>

type_synonym rpcHandler = "jsval \<Rightarrow> thrown + jsval"

record rpcRequest =
  "method" :: string
  params :: string

record rpcHandlerManager =
  handlers :: "(string \<times> rpcHandler) list"
  scopePrefix :: string
  socket :: "nat option"
  announced :: "(nat \<times> string) list"

definition newRpcHandlerManager :: "string \<Rightarrow> rpcHandlerManager" where
  "newRpcHandlerManager prefix =
     \<lparr>handlers = [], scopePrefix = prefix, socket = None, announced = []\<rparr>"

fun mapSet :: "'k \<Rightarrow> 'v \<Rightarrow> ('k \<times> 'v) list \<Rightarrow> ('k \<times> 'v) list" where
  "mapSet k v [] = [(k, v)]"
| "mapSet k v (p # ps) = (if fst p = k then (k, v) # ps else p # mapSet k v ps)"

definition getPrefixedMethod :: "rpcHandlerManager \<Rightarrow> string \<Rightarrow> string" where
  "getPrefixedMethod m name = scopePrefix m @ '':'' @ name"

definition registerHandler :: "rpcHandlerManager \<Rightarrow> string \<Rightarrow> rpcHandler \<Rightarrow> rpcHandlerManager" where
  "registerHandler m name handler =
     (let prefixedMethod = getPrefixedMethod m name;
          m1 = m\<lparr>handlers := mapSet prefixedMethod handler (handlers m)\<rparr>
      in case socket m1 of
           None \<Rightarrow> m1
         | Some sock \<Rightarrow> m1\<lparr>announced := announced m1 @ [(sock, prefixedMethod)]\<rparr>)"

text \<open>The response \<^verbatim>\<open>JSON.stringify({ error: msg })\<close>, an object with the one property.\<close>

definition errorResponse :: "string \<Rightarrow> string" where
  "errorResponse msg = ''{'' @ joinComma (stringifyProps [(''error'', JStr msg)]) @ ''}''"

text \<open>
  \<^verbatim>\<open>handleRequest\<close>, in three parts: the params handed to the handler (the inner
  \<^verbatim>\<open>try\<close>/\<^verbatim>\<open>catch\<close> around \<^verbatim>\<open>JSON.parse\<close>), the call of the handler with the
  serialisation of its result, and the outer \<^verbatim>\<open>try\<close> block whose \<^verbatim>\<open>catch\<close> turns whatever
  was thrown into an error response. Besides the handler, one more statement of the block
  can throw: when the handler returns \<^verbatim>\<open>undefined\<close>, \<^verbatim>\<open>JSON.stringify\<close> returns
  \<^verbatim>\<open>undefined\<close> and reading \<^verbatim>\<open>response.length\<close> for the log line is a \<^verbatim>\<open>TypeError\<close>.
  The function writes no field of the manager; the manager is returned beside the
  response to say so. The logger is a sink: its lines are not recorded here.
\<close>

definition parseParams :: "jsonParse \<Rightarrow> string \<Rightarrow> jsval" where
  "parseParams parse p = (case parse p of Some v \<Rightarrow> v | None \<Rightarrow> JStr p)"

definition callHandler :: "rpcHandler \<Rightarrow> jsval \<Rightarrow> thrown + string" where
  "callHandler handler ps =
     (case handler ps of
        Inl e \<Rightarrow> Inl e
      | Inr result \<Rightarrow>
          (case stringify result of
             None \<Rightarrow> Inl (ErrorObj (''Cannot read properties of undefined (reading ''
                         @ [CHR 0x27] @ ''length'' @ [CHR 0x27] @ '')''))
           | Some response \<Rightarrow> Inr response))"

definition handleRequestTry :: "jsonParse \<Rightarrow> rpcHandlerManager \<Rightarrow> rpcRequest \<Rightarrow> thrown + string" where
  "handleRequestTry parse m request =
     (case map_of (handlers m) (method request) of
        None \<Rightarrow> Inr (errorResponse ''Method not found'')
      | Some handler \<Rightarrow> callHandler handler (parseParams parse (params request)))"

definition caughtMessage :: "thrown \<Rightarrow> string" where
  "caughtMessage e = (case e of ErrorObj msg \<Rightarrow> msg | NonError v \<Rightarrow> ''Unknown error'')"

definition handleRequest :: "jsonParse \<Rightarrow> rpcHandlerManager \<Rightarrow> rpcRequest \<Rightarrow> string \<times> rpcHandlerManager" where
  "handleRequest parse m request =
     (case handleRequestTry parse m request of
        Inr response \<Rightarrow> (response, m)
      | Inl e \<Rightarrow> (errorResponse (caughtMessage e), m))"

definition onSocketConnect :: "rpcHandlerManager \<Rightarrow> nat \<Rightarrow> rpcHandlerManager" where
  "onSocketConnect m sock =
     m\<lparr>socket := Some sock,
       announced := announced m @ map (\<lambda>p. (sock, fst p)) (handlers m)\<rparr>"

definition onSocketDisconnect :: "rpcHandlerManager \<Rightarrow> rpcHandlerManager" where
  "onSocketDisconnect m = m\<lparr>socket := None\<rparr>"

definition clearHandlers :: "rpcHandlerManager \<Rightarrow> rpcHandlerManager" where
  "clearHandlers m = m\<lparr>handlers := []\<rparr>"

text \<open>
  The calls a client makes on a manager over its life, run in order from the state the
  constructor leaves.
\<close>

datatype rpcOp = Register string rpcHandler | Connect nat | Disconnect | Clear

fun applyRpcOp :: "rpcHandlerManager \<Rightarrow> rpcOp \<Rightarrow> rpcHandlerManager" where
  "applyRpcOp m (Register name handler) = registerHandler m name handler"
| "applyRpcOp m (Connect sock) = onSocketConnect m sock"
| "applyRpcOp m Disconnect = onSocketDisconnect m"
| "applyRpcOp m Clear = clearHandlers m"

definition runRpcOps :: "string \<Rightarrow> rpcOp list \<Rightarrow> rpcHandlerManager" where
  "runRpcOps prefix ops = foldl applyRpcOp (newRpcHandlerManager prefix) ops"

text \<open>The method names registered by a sequence of calls and not cleared since.\<close>

definition registeredNames :: "rpcOp list \<Rightarrow> string set" where
  "registeredNames ops =
     foldl (\<lambda>names op. case op of
                          Register name handler \<Rightarrow> insert name names
                        | Clear \<Rightarrow> {}
                        | _ \<Rightarrow> names) {} ops"

section \<open>ApiSessionClient\<close>

text \<open>
  The fields of the client, and what its effects leave behind: the calls made on the
  socket (\<open>sockCalls\<close>), the invocations of the user-message callback (\<open>delivered\<close>, each
  with the callback it went to), the \<^verbatim>\<open>'message'\<close> events emitted to listeners
  (\<open>emitted\<close>) and the lines handed to the logger (\<open>logged\<close>). \<open>connected\<close> is
  \<^verbatim>\<open>socket.connected\<close>.

  The user-message callback is a function of the caller's: it is named by a number and
  comes with what a call of it does on a message, return (\<open>None\<close>) or throw. The
  listeners of the \<^verbatim>\<open>'message'\<close> event are not represented beyond the events emitted.
\<close>

type_synonym consumer = "nat \<times> (jsval \<Rightarrow> thrown option)"

datatype sockCall =
    Emit string jsval
  | VolatileEmit string jsval
  | EmitWithAck string jsval

record session =
  sessionId :: string
  metadata :: jsval
  metadataVersion :: int
  agentState :: jsval
  agentStateVersion :: int
  connected :: bool
  sockCalls :: "sockCall list"
  pendingMessages :: "jsval list"
  pendingMessageCallback :: "consumer option"
  delivered :: "(nat \<times> jsval) list"
  emitted :: "jsval list"
  logged :: "string list"

text \<open>The constructor's assignments; the socket is created with \<^verbatim>\<open>autoConnect: false\<close>.\<close>

definition newApiSessionClient :: "string \<Rightarrow> jsval \<Rightarrow> int \<Rightarrow> jsval \<Rightarrow> int \<Rightarrow> session" where
  "newApiSessionClient sid md mdVersion ast astVersion =
     \<lparr>sessionId = sid, metadata = md, metadataVersion = mdVersion,
      agentState = ast, agentStateVersion = astVersion, connected = False,
      sockCalls = [], pendingMessages = [], pendingMessageCallback = None,
      delivered = [], emitted = [], logged = []\<rparr>"

definition logDebug :: "string \<Rightarrow> session \<Rightarrow> session" where
  "logDebug msg s = s\<lparr>logged := logged s @ [msg]\<rparr>"

definition socketEmit :: "sockCall \<Rightarrow> session \<Rightarrow> session" where
  "socketEmit call s = s\<lparr>sockCalls := sockCalls s @ [call]\<rparr>"

subsection \<open>Inbound updates\<close>

text \<open>
  The body of an \<^verbatim>\<open>'update'\<close> event by its tag \<^verbatim>\<open>t\<close>: a new message with its content,
  a session update with the optional \<^verbatim>\<open>{value, version}\<close> of each document, a machine
  update, or anything else. \<^verbatim>\<open>UserMessageSchema\<close> is declared outside these sources; the
  handler takes its \<^verbatim>\<open>safeParse\<close> as the parameter \<open>userMessageSchema\<close> (\<open>None\<close> when
  the body is no user message).
\<close>

type_synonym versioned = "jsval \<times> int"

datatype update =
    NoBody
  | NewMessage jsval
  | UpdateSession "versioned option" "versioned option"
  | UpdateMachine
  | OtherUpdate jsval

text \<open>The string \<^verbatim>\<open>JSON.parse\<close> reads when its argument is not one already.\<close>

fun toStringJS :: "jsval \<Rightarrow> string"
  and toStringElems :: "jsval list \<Rightarrow> string list" where
  "toStringJS JUndefined = ''undefined''"
| "toStringJS JNull = ''null''"
| "toStringJS (JBool b) = (if b then ''true'' else ''false'')"
| "toStringJS (JNum n) = showInt n"
| "toStringJS (JStr s) = s"
| "toStringJS (JArr xs) = joinComma (toStringElems xs)"
| "toStringJS (JObj ps) = ''[object Object]''"
| "toStringElems [] = []"
| "toStringElems (x # xs) =
     (if x = JUndefined \<or> x = JNull then [] else toStringJS x) # toStringElems xs"

text \<open>
  The body of a new message: the content itself, or what the \<^verbatim>\<open>c\<close> field of the
  \<^verbatim>\<open>{t: 'encrypted', c}\<close> wrapper parses to. \<open>Skipped\<close> is the early \<^verbatim>\<open>return\<close> when
  \<^verbatim>\<open>JSON.parse\<close> throws; \<open>Threw\<close> is a \<^verbatim>\<open>TypeError\<close> of the property read, which the
  handler's outer \<^verbatim>\<open>catch\<close> receives.
\<close>

datatype unwrapped = Body jsval | Skipped | Threw thrown

definition unwrapContent :: "jsonParse \<Rightarrow> jsval \<Rightarrow> unwrapped" where
  "unwrapContent parse content =
     (case getProp content ''t'' of
        Inl e \<Rightarrow> Threw e
      | Inr t \<Rightarrow>
          if t = JStr ''encrypted'' then
            (case getProp content ''c'' of
               Inl e \<Rightarrow> Threw e
             | Inr c \<Rightarrow>
                 (case parse (toStringJS c) of
                    Some body \<Rightarrow> Body body
                  | None \<Rightarrow> Skipped))
          else Body content)"

text \<open>
  The routing of a body: a user message goes to the callback when there is one and into
  the buffer otherwise; anything else is emitted. The call of the callback stands inside
  the handler's \<^verbatim>\<open>try\<close> block, so what the callback throws is caught and logged.
\<close>

definition routeMessage :: "(jsval \<Rightarrow> jsval option) \<Rightarrow> jsval \<Rightarrow> session \<Rightarrow> session" where
  "routeMessage userMessageSchema body s =
     (case userMessageSchema body of
        Some userMessage \<Rightarrow>
          (case pendingMessageCallback s of
             Some callback \<Rightarrow>
               (let s1 = s\<lparr>delivered := delivered s @ [(fst callback, userMessage)]\<rparr> in
                case snd callback userMessage of
                  None \<Rightarrow> s1
                | Some e \<Rightarrow> logDebug ''[SOCKET] [UPDATE] [ERROR] Error handling update'' s1)
           | None \<Rightarrow> s\<lparr>pendingMessages := pendingMessages s @ [userMessage]\<rparr>)
      | None \<Rightarrow> s\<lparr>emitted := emitted s @ [body]\<rparr>)"

definition handleNewMessage :: "jsonParse \<Rightarrow> (jsval \<Rightarrow> jsval option) \<Rightarrow> jsval \<Rightarrow> session \<Rightarrow> session" where
  "handleNewMessage parse userMessageSchema content s =
     (case unwrapContent parse content of
        Threw e \<Rightarrow> logDebug ''[SOCKET] [UPDATE] [ERROR] Error handling update'' s
      | Skipped \<Rightarrow>
          logDebug ''[SOCKET] [UPDATE] Failed to parse encrypted message content - skipping'' s
      | Body body \<Rightarrow>
          routeMessage userMessageSchema body
            (logDebug ''[SOCKET] [UPDATE] Received message:''
              (if getProp content ''t'' = Inr (JStr ''encrypted'')
               then logDebug ''[SOCKET] [UPDATE] Parsed message from encrypted wrapper'' s
               else s)))"

text \<open>
  A document on the wire is a JSON string or the value itself:
  \<^verbatim>\<open>typeof v === 'string' ? JSON.parse(v) : v\<close>, with \<open>None\<close> when \<^verbatim>\<open>JSON.parse\<close> throws.
  The agent state is \<^verbatim>\<open>null\<close> when the value is falsy, and \<^verbatim>\<open>JSON.parse\<close> is not called.
\<close>

definition decodeDocument :: "jsonParse \<Rightarrow> jsval \<Rightarrow> jsval option" where
  "decodeDocument parse v = (case v of JStr str \<Rightarrow> parse str | _ \<Rightarrow> Some v)"

definition decodeAgentState :: "jsonParse \<Rightarrow> jsval \<Rightarrow> jsval option" where
  "decodeAgentState parse v = (if truthy v then decodeDocument parse v else Some JNull)"

definition applyMetadataPush :: "jsonParse \<Rightarrow> versioned option \<Rightarrow> session \<Rightarrow> session" where
  "applyMetadataPush parse pushed s =
     (case pushed of
        None \<Rightarrow> s
      | Some (val, ver) \<Rightarrow>
          if ver > metadataVersion s then
            (case decodeDocument parse val of
               Some doc \<Rightarrow> s\<lparr>metadata := doc, metadataVersion := ver\<rparr>
             | None \<Rightarrow> logDebug ''[SOCKET] Failed to parse metadata'' s)
          else s)"

definition applyAgentStatePush :: "jsonParse \<Rightarrow> versioned option \<Rightarrow> session \<Rightarrow> session" where
  "applyAgentStatePush parse pushed s =
     (case pushed of
        None \<Rightarrow> s
      | Some (val, ver) \<Rightarrow>
          if ver > agentStateVersion s then
            (case decodeAgentState parse val of
               Some doc \<Rightarrow> s\<lparr>agentState := doc, agentStateVersion := ver\<rparr>
             | None \<Rightarrow> logDebug ''[SOCKET] Failed to parse agentState'' s)
          else s)"

definition handleUpdate :: "jsonParse \<Rightarrow> (jsval \<Rightarrow> jsval option) \<Rightarrow> session \<Rightarrow> update \<Rightarrow> session" where
  "handleUpdate parse userMessageSchema s data =
     (let s0 = logDebug ''[SOCKET] [UPDATE] Received update:'' s in
      case data of
        NoBody \<Rightarrow> logDebug ''[SOCKET] [UPDATE] [ERROR] No body in update!'' s0
      | NewMessage content \<Rightarrow> handleNewMessage parse userMessageSchema content s0
      | UpdateSession md ast \<Rightarrow> applyAgentStatePush parse ast (applyMetadataPush parse md s0)
      | UpdateMachine \<Rightarrow>
          logDebug ''[SOCKET] WARNING: Session client received unexpected machine update - ignoring'' s0
      | OtherUpdate body \<Rightarrow> s0\<lparr>emitted := emitted s0 @ [body]\<rparr>)"

subsection \<open>The user-message queue\<close>




subsection \<open>Conditional writes\<close>

text \<open>
  What \<^verbatim>\<open>emitWithAck\<close> resolves to: \<^verbatim>\<open>{result: 'success', version, metadata}\<close>,
  \<^verbatim>\<open>{result: 'version-mismatch', version, metadata}\<close> (the document \<^verbatim>\<open>undefined\<close> when
  none is attached), any other result, or a rejected promise. An attempt ends normally
  (\<open>None\<close>) or throws.
\<close>

datatype answer =
    Success int jsval
  | VersionMismatch int jsval
  | OtherResult
  | AckRejected

datatype attemptError = JsonSyntaxError | MismatchError string | AckError

definition jsonString :: "jsval \<Rightarrow> jsval" where
  "jsonString v = (case stringify v of None \<Rightarrow> JUndefined | Some str \<Rightarrow> JStr str)"

definition metadataRequest :: "(jsval \<Rightarrow> jsval) \<Rightarrow> session \<Rightarrow> jsval" where
  "metadataRequest handler s =
     (let updated = handler (metadata s) in
      JObj [(''sid'', JStr (sessionId s)),
            (''expectedVersion'', JNum (metadataVersion s)),
            (''metadata'', jsonString updated)])"

text \<open>
  The statements after the \<^verbatim>\<open>await\<close>, which read the fields as they are when the answer
  arrives. On a mismatch the version is assigned before the document is parsed.
\<close>

definition metadataAnswer :: "jsonParse \<Rightarrow> answer \<Rightarrow> session \<Rightarrow> session \<times> attemptError option" where
  "metadataAnswer parse ans s =
     (case ans of
        Success ver doc \<Rightarrow>
          (case decodeDocument parse doc of
             None \<Rightarrow> (s, Some JsonSyntaxError)
           | Some d \<Rightarrow> (s\<lparr>metadata := d, metadataVersion := ver\<rparr>, None))
      | VersionMismatch ver doc \<Rightarrow>
          (if ver > metadataVersion s then
             (case decodeDocument parse doc of
                None \<Rightarrow> (s\<lparr>metadataVersion := ver\<rparr>, Some JsonSyntaxError)
              | Some d \<Rightarrow>
                  (s\<lparr>metadataVersion := ver, metadata := d\<rparr>,
                   Some (MismatchError ''Metadata version mismatch'')))
           else (s, Some (MismatchError ''Metadata version mismatch'')))
      | OtherResult \<Rightarrow> (s, None)
      | AckRejected \<Rightarrow> (s, Some AckError))"

text \<open>
  One run of the function handed to \<^verbatim>\<open>backoff\<close>. The remote side is \<open>respond\<close>, which
  answers the request it is sent.
\<close>

definition metadataAttempt :: "jsonParse \<Rightarrow> (jsval \<Rightarrow> jsval) \<Rightarrow> (jsval \<Rightarrow> answer) \<Rightarrow> session \<Rightarrow> session \<times> attemptError option" where
  "metadataAttempt parse handler respond s =
     (let request = metadataRequest handler s in
      metadataAnswer parse (respond request)
        (socketEmit (EmitWithAck ''update-metadata'' request) s))"

definition agentStateRequest :: "(jsval \<Rightarrow> jsval) \<Rightarrow> session \<Rightarrow> jsval" where
  "agentStateRequest handler s =
     (let updated = handler (if truthy (agentState s) then agentState s else JObj []) in
      JObj [(''sid'', JStr (sessionId s)),
            (''expectedVersion'', JNum (agentStateVersion s)),
            (''agentState'', if truthy updated then jsonString updated else JNull)])"

definition agentStateAnswer :: "jsonParse \<Rightarrow> answer \<Rightarrow> session \<Rightarrow> session \<times> attemptError option" where
  "agentStateAnswer parse ans s =
     (case ans of
        Success ver doc \<Rightarrow>
          (case decodeAgentState parse doc of
             None \<Rightarrow> (s, Some JsonSyntaxError)
           | Some d \<Rightarrow>
               (logDebug ''Agent state updated'' (s\<lparr>agentState := d, agentStateVersion := ver\<rparr>),
                None))
      | VersionMismatch ver doc \<Rightarrow>
          (if ver > agentStateVersion s then
             (case decodeAgentState parse doc of
                None \<Rightarrow> (s\<lparr>agentStateVersion := ver\<rparr>, Some JsonSyntaxError)
              | Some d \<Rightarrow>
                  (s\<lparr>agentStateVersion := ver, agentState := d\<rparr>,
                   Some (MismatchError ''Agent state version mismatch'')))
           else (s, Some (MismatchError ''Agent state version mismatch'')))
      | OtherResult \<Rightarrow> (s, None)
      | AckRejected \<Rightarrow> (s, Some AckError))"

definition agentStateAttempt :: "jsonParse \<Rightarrow> (jsval \<Rightarrow> jsval) \<Rightarrow> (jsval \<Rightarrow> answer) \<Rightarrow> session \<Rightarrow> session \<times> attemptError option" where
  "agentStateAttempt parse handler respond s =
     (let request = agentStateRequest handler s in
      agentStateAnswer parse (respond request)
        (socketEmit (EmitWithAck ''update-state'' request) s))"

text \<open>
  Modelled from the spec: \<^verbatim>\<open>backoff\<close> of \<^verbatim>\<open>@/utils/time\<close>, which is not among these
  sources. The spec describes a generic retry-until-success executor: the callback is
  run again after every failure, with a delay between runs, and there is no bound on the
  number of runs. Here the runs are driven by the list of what the remote side does at
  each run; \<open>None\<close> says the callback has failed at every one of them and the loop is
  still retrying. Delays are not represented.
\<close>

fun backoff :: "('r \<Rightarrow> 's \<Rightarrow> 's \<times> 'e option) \<Rightarrow> 'r list \<Rightarrow> 's \<Rightarrow> 's option" where
  "backoff attempt [] s = None"
| "backoff attempt (r # rs) s =
     (case attempt r s of
        (s', None) \<Rightarrow> Some s'
      | (s', Some e) \<Rightarrow> backoff attempt rs s')"

text \<open>
  \<^verbatim>\<open>updateMetadata\<close> and \<^verbatim>\<open>updateAgentState\<close>. The lock makes the runs of one document's
  updates follow one another, which is how they are composed here.
\<close>

definition updateMetadata :: "jsonParse \<Rightarrow> (jsval \<Rightarrow> jsval) \<Rightarrow> (jsval \<Rightarrow> answer) list \<Rightarrow> session \<Rightarrow> session option" where
  "updateMetadata parse handler remote s = backoff (metadataAttempt parse handler) remote s"

definition updateAgentState :: "jsonParse \<Rightarrow> (jsval \<Rightarrow> jsval) \<Rightarrow> (jsval \<Rightarrow> answer) list \<Rightarrow> session \<Rightarrow> session option" where
  "updateAgentState parse handler remote s =
     backoff (agentStateAttempt parse handler) remote (logDebug ''Updating agent state'' s)"

subsection \<open>What the client receives, as a sequence\<close>

text \<open>
  The events that write the documents and their versions: an inbound update, and the
  answer to a conditional write of either document, in any interleaving.
\<close>

datatype event =
    Push update
  | MetadataAnswer answer
  | AgentStateAnswer answer

fun step :: "jsonParse \<Rightarrow> (jsval \<Rightarrow> jsval option) \<Rightarrow> session \<Rightarrow> event \<Rightarrow> session" where
  "step parse userMessageSchema s (Push data) = handleUpdate parse userMessageSchema s data"
| "step parse userMessageSchema s (MetadataAnswer ans) = fst (metadataAnswer parse ans s)"
| "step parse userMessageSchema s (AgentStateAnswer ans) = fst (agentStateAnswer parse ans s)"

definition run :: "jsonParse \<Rightarrow> (jsval \<Rightarrow> jsval option) \<Rightarrow> session \<Rightarrow> event list \<Rightarrow> session" where
  "run parse userMessageSchema s evs = foldl (step parse userMessageSchema) s evs"

text \<open>The versions an event carries for each document.\<close>

fun carriedMetadataVersions :: "event \<Rightarrow> int set" where
  "carriedMetadataVersions (Push (UpdateSession (Some (val, ver)) ast)) = {ver}"
| "carriedMetadataVersions (MetadataAnswer (Success ver doc)) = {ver}"
| "carriedMetadataVersions (MetadataAnswer (VersionMismatch ver doc)) = {ver}"
| "carriedMetadataVersions ev = {}"

fun carriedAgentStateVersions :: "event \<Rightarrow> int set" where
  "carriedAgentStateVersions (Push (UpdateSession md (Some (val, ver)))) = {ver}"
| "carriedAgentStateVersions (AgentStateAnswer (Success ver doc)) = {ver}"
| "carriedAgentStateVersions (AgentStateAnswer (VersionMismatch ver doc)) = {ver}"
| "carriedAgentStateVersions ev = {}"

text \<open>
  The answers whose version the client adopts without comparing it with its own.
\<close>

fun isSuccessAnswer :: "event \<Rightarrow> bool" where
  "isSuccessAnswer (MetadataAnswer (Success ver doc)) = True"
| "isSuccessAnswer (AgentStateAnswer (Success ver doc)) = True"
| "isSuccessAnswer ev = False"

subsection \<open>Outbound sends\<close>

text \<open>
  \<^verbatim>\<open>sendCodexMessage\<close>, \<^verbatim>\<open>sendAgentMessage\<close>, \<^verbatim>\<open>sendUsageData\<close> and \<^verbatim>\<open>keepAlive\<close>.
  \<^verbatim>\<open>sendClaudeSessionMessage\<close> tests \<^verbatim>\<open>socket.connected\<close> as \<^verbatim>\<open>sendCodexMessage\<close> does;
  the type of its argument is declared outside these sources and it is not translated.
\<close>

datatype acpProvider = Gemini | Codex | Claude | Opencode

fun providerName :: "acpProvider \<Rightarrow> string" where
  "providerName Gemini = ''gemini''"
| "providerName Codex = ''codex''"
| "providerName Claude = ''claude''"
| "providerName Opencode = ''opencode''"

definition messagePayload :: "session \<Rightarrow> jsval \<Rightarrow> jsval" where
  "messagePayload s content =
     JObj [(''sid'', JStr (sessionId s)), (''message'', jsonString content)]"

definition sendCodexMessage :: "jsval \<Rightarrow> session \<Rightarrow> session" where
  "sendCodexMessage body s =
     (let content = JObj [(''role'', JStr ''agent''),
                          (''content'', JObj [(''type'', JStr ''codex''), (''data'', body)]),
                          (''meta'', JObj [(''sentFrom'', JStr ''cli'')])] in
      if \<not> connected s
      then logDebug ''[API] Socket not connected, cannot send message.'' s
      else socketEmit (Emit ''message'' (messagePayload s content)) s)"

definition sendAgentMessage :: "acpProvider \<Rightarrow> jsval \<Rightarrow> session \<Rightarrow> session" where
  "sendAgentMessage provider body s =
     (let content = JObj [(''role'', JStr ''agent''),
                          (''content'', JObj [(''type'', JStr ''acp''),
                                              (''provider'', JStr (providerName provider)),
                                              (''data'', body)]),
                          (''meta'', JObj [(''sentFrom'', JStr ''cli'')])];
          s1 = logDebug (''[SOCKET] Sending ACP message from '' @ providerName provider @ '':'') s
      in socketEmit (Emit ''message'' (messagePayload s1 content)) s1)"

record usage =
  input_tokens :: int
  output_tokens :: int
  cache_creation_input_tokens :: "int option"
  cache_read_input_tokens :: "int option"

definition orZero :: "int option \<Rightarrow> int" where
  "orZero x = (case x of None \<Rightarrow> 0 | Some n \<Rightarrow> n)"

definition sendUsageData :: "usage \<Rightarrow> session \<Rightarrow> session" where
  "sendUsageData u s =
     (let totalTokens = input_tokens u + output_tokens u
            + orZero (cache_creation_input_tokens u) + orZero (cache_read_input_tokens u);
          usageReport =
            JObj [(''key'', JStr ''claude-session''),
                  (''sessionId'', JStr (sessionId s)),
                  (''tokens'', JObj [(''total'', JNum totalTokens),
                                     (''input'', JNum (input_tokens u)),
                                     (''output'', JNum (output_tokens u)),
                                     (''cache_creation'', JNum (orZero (cache_creation_input_tokens u))),
                                     (''cache_read'', JNum (orZero (cache_read_input_tokens u)))]),
                  (''cost'', JObj [(''total'', JNum 0), (''input'', JNum 0), (''output'', JNum 0)])];
          s1 = logDebug ''[SOCKET] Sending usage data:'' s
      in socketEmit (Emit ''usage-report'' usageReport) s1)"

text \<open>
  \<^verbatim>\<open>keepAlive\<close>; \<open>debug\<close> is whether \<^verbatim>\<open>process.env.DEBUG\<close> is set and \<open>now\<close> is
  \<^verbatim>\<open>Date.now()\<close>. The mode is \<^verbatim>\<open>'local'\<close> or \<^verbatim>\<open>'remote'\<close>.
\<close>

definition keepAlive :: "bool \<Rightarrow> int \<Rightarrow> bool \<Rightarrow> string \<Rightarrow> session \<Rightarrow> session" where
  "keepAlive debug now thinking mode s =
     (let s1 = (if debug
                then logDebug (''[API] Sending keep alive message: ''
                               @ (if thinking then ''true'' else ''false'')) s
                else s)
      in socketEmit (VolatileEmit ''session-alive''
           (JObj [(''sid'', JStr (sessionId s1)), (''time'', JNum now),
                  (''thinking'', JBool thinking), (''mode'', JStr mode)])) s1)"

section \<open>Properties of the RPC handler manager\<close>

lemma map_fst_mapSet:
  "map fst (mapSet k v ps) = (if k \<in> fst ` set ps then map fst ps else map fst ps @ [k])"
  by (induction ps) auto

lemma applyRpcOp_prefix: "scopePrefix (applyRpcOp m op) = scopePrefix m"
  by (cases op) (simp_all add: registerHandler_def Let_def onSocketConnect_def
      onSocketDisconnect_def clearHandlers_def split: option.splits)

lemma runRpcOps_snoc: "runRpcOps prefix (ops @ [op]) = applyRpcOp (runRpcOps prefix ops) op"
  by (simp add: runRpcOps_def)

lemma runRpcOps_prefix: "scopePrefix (runRpcOps prefix ops) = prefix"
proof (induction ops rule: rev_induct)
  case Nil
  show ?case by (simp add: runRpcOps_def newRpcHandlerManager_def)
next
  case (snoc op ops)
  then show ?case by (simp add: runRpcOps_snoc applyRpcOp_prefix)
qed

lemma keys_registerHandler:
  "map fst (handlers (registerHandler m name handler)) =
     map fst (mapSet (scopePrefix m @ '':'' @ name) handler (handlers m))"
  by (simp add: registerHandler_def Let_def getPrefixedMethod_def split: option.splits)

lemma registeredNames_snoc:
  "registeredNames (ops @ [op]) =
     (case op of Register name handler \<Rightarrow> insert name (registeredNames ops)
               | Clear \<Rightarrow> {} | _ \<Rightarrow> registeredNames ops)"
  by (cases op) (simp_all add: registeredNames_def)

text \<open>The keys of the handler map stay distinct, as those of a \<^verbatim>\<open>Map\<close> are.\<close>

lemma runRpcOps_distinct: "distinct (map fst (handlers (runRpcOps prefix ops)))"
proof (induction ops rule: rev_induct)
  case Nil
  show ?case by (simp add: runRpcOps_def newRpcHandlerManager_def)
next
  case (snoc op ops)
  show ?case
  proof (cases op)
    case (Register name handler)
    with snoc show ?thesis
      by (simp add: runRpcOps_snoc keys_registerHandler map_fst_mapSet)
  qed (use snoc in \<open>simp_all add: runRpcOps_snoc onSocketConnect_def onSocketDisconnect_def
         clearHandlers_def\<close>)
qed

lemma runRpcOps_keys:
  "fst ` set (handlers (runRpcOps prefix ops)) =
     (\<lambda>name. prefix @ '':'' @ name) ` registeredNames ops"
proof (induction ops rule: rev_induct)
  case Nil
  show ?case by (simp add: runRpcOps_def newRpcHandlerManager_def registeredNames_def)
next
  case (snoc op ops)
  show ?case
  proof (cases op)
    case (Register name handler)
    have "fst ` set (handlers (registerHandler (runRpcOps prefix ops) name handler))
        = set (map fst (handlers (registerHandler (runRpcOps prefix ops) name handler)))"
      by simp
    also have "\<dots> = insert (prefix @ '':'' @ name) (fst ` set (handlers (runRpcOps prefix ops)))"
      unfolding keys_registerHandler map_fst_mapSet runRpcOps_prefix by auto
    finally show ?thesis using snoc Register
      by (simp add: runRpcOps_snoc registeredNames_snoc)
  qed (use snoc in \<open>simp_all add: runRpcOps_snoc registeredNames_snoc onSocketConnect_def
         onSocketDisconnect_def clearHandlers_def\<close>)
qed

lemma errorResponse_text:
  "errorResponse msg = ''{'' @ quoteJSON ''error'' @ '':'' @ quoteJSON msg @ ''}''"
  by (simp add: errorResponse_def)

text \<open>
  Claim C3. \<^verbatim>\<open>handleRequest\<close> returns a response string for every request and every
  manager; nothing is thrown to the caller. When the method of the request is not a key
  of the handler map, the response is \<^verbatim>\<open>{"error":"Method not found"}\<close>. When the handler
  found throws an \<^verbatim>\<open>Error\<close>, the response is the object whose \<^verbatim>\<open>error\<close> property is the
  error's message, and \<^verbatim>\<open>'Unknown error'\<close> when it throws anything else. In every case
  the manager, and so its handler map, is as it was.
\<close>

theorem handleRequest_never_throws:
  \<open>(map_of (handlers m) (method req) = None \<longrightarrow>
      handleRequest parse m req = (''{"error":"Method not found"}'', m))
   \<and> (\<forall>h msg. map_of (handlers m) (method req) = Some h
          \<and> h (parseParams parse (params req)) = Inl (ErrorObj msg) \<longrightarrow>
        handleRequest parse m req = (''{"error":'' @ quoteJSON msg @ ''}'', m))
   \<and> (\<forall>h v. map_of (handlers m) (method req) = Some h
          \<and> h (parseParams parse (params req)) = Inl (NonError v) \<longrightarrow>
        handleRequest parse m req = (''{"error":"Unknown error"}'', m))
   \<and> snd (handleRequest parse m req) = m\<close>
  by (auto simp: handleRequest_def handleRequestTry_def callHandler_def caughtMessage_def
        errorResponse_def quoteJSON_def escapeChar_def split: sum.splits option.splits)

theorem handleRequest_never_throws_witness:
  \<open>handleRequest Map.empty
      (runRpcOps ''s1'' [Register ''ping'' (\<lambda>p. Inl (ErrorObj ''boom'')),
                         Register ''raw'' (\<lambda>p. Inl (NonError JNull))])
      \<lparr>method = ''s1:unknownMethod'', params = ''{}''\<rparr>
    = (''{"error":"Method not found"}'',
       runRpcOps ''s1'' [Register ''ping'' (\<lambda>p. Inl (ErrorObj ''boom'')),
                         Register ''raw'' (\<lambda>p. Inl (NonError JNull))])
   \<and> fst (handleRequest Map.empty
      (runRpcOps ''s1'' [Register ''ping'' (\<lambda>p. Inl (ErrorObj ''boom'')),
                         Register ''raw'' (\<lambda>p. Inl (NonError JNull))])
      \<lparr>method = ''s1:ping'', params = ''{}''\<rparr>) = ''{"error":"boom"}''
   \<and> fst (handleRequest Map.empty
      (runRpcOps ''s1'' [Register ''ping'' (\<lambda>p. Inl (ErrorObj ''boom'')),
                         Register ''raw'' (\<lambda>p. Inl (NonError JNull))])
      \<lparr>method = ''s1:raw'', params = ''{}''\<rparr>) = ''{"error":"Unknown error"}''\<close>
proof -
  let ?m = "runRpcOps ''s1'' [Register ''ping'' (\<lambda>p. Inl (ErrorObj ''boom'')),
                              Register ''raw'' (\<lambda>p. Inl (NonError JNull))]"
  have hs: "handlers ?m = [(''s1:ping'', \<lambda>p. Inl (ErrorObj ''boom'')),
                           (''s1:raw'', \<lambda>p. Inl (NonError JNull))]"
    by (simp add: runRpcOps_def newRpcHandlerManager_def registerHandler_def
          getPrefixedMethod_def Let_def)
  have a: "map_of (handlers ?m) (method \<lparr>method = ''s1:unknownMethod'', params = ''{}''\<rparr>) = None"
    by (simp add: hs)
  have b: "map_of (handlers ?m) (method \<lparr>method = ''s1:ping'', params = ''{}''\<rparr>)
             = Some (\<lambda>p. Inl (ErrorObj ''boom''))"
    by (simp add: hs)
  have c: "map_of (handlers ?m) (method \<lparr>method = ''s1:raw'', params = ''{}''\<rparr>)
             = Some (\<lambda>p. Inl (NonError JNull))"
    by (simp add: hs)
  have q: \<open>quoteJSON ''boom'' = ''"boom"''\<close>
    by (simp add: quoteJSON_def escapeChar_def)
  show ?thesis
    using handleRequest_never_throws [of ?m "\<lparr>method = ''s1:unknownMethod'', params = ''{}''\<rparr>" Map.empty]
      handleRequest_never_throws [of ?m "\<lparr>method = ''s1:ping'', params = ''{}''\<rparr>" Map.empty]
      handleRequest_never_throws [of ?m "\<lparr>method = ''s1:raw'', params = ''{}''\<rparr>" Map.empty]
      a b c q
    by simp
qed



text \<open>
  Claim C6. Take any sequence of calls on a manager (registrations, connects,
  disconnects, clears). The disconnect notification leaves the handler map as it is and
  clears the socket, announcing nothing. The next connect announces, on the new socket,
  the prefixed name of every handler of the map: the list of these announcements has no
  duplicates, and its elements are exactly the names registered so far.
\<close>

theorem reconnect_replays_registrations:
  "handlers (onSocketDisconnect (runRpcOps prefix ops)) = handlers (runRpcOps prefix ops)
   \<and> socket (onSocketDisconnect (runRpcOps prefix ops)) = None
   \<and> announced (onSocketDisconnect (runRpcOps prefix ops)) = announced (runRpcOps prefix ops)
   \<and> announced (onSocketConnect (onSocketDisconnect (runRpcOps prefix ops)) sock)
       = announced (runRpcOps prefix ops)
         @ map (\<lambda>p. (sock, fst p)) (handlers (runRpcOps prefix ops))
   \<and> distinct (map (\<lambda>p. (sock, fst p)) (handlers (runRpcOps prefix ops)))
   \<and> set (map (\<lambda>p. (sock, fst p)) (handlers (runRpcOps prefix ops)))
       = (\<lambda>name. (sock, prefix @ '':'' @ name)) ` registeredNames ops"
proof -
  let ?m = "runRpcOps prefix ops"
  have d: "distinct (map fst (handlers ?m))" by (rule runRpcOps_distinct)
  have k: "fst ` set (handlers ?m) = (\<lambda>name. prefix @ '':'' @ name) ` registeredNames ops"
    by (rule runRpcOps_keys)
  have e: "map (\<lambda>p. (sock, fst p)) (handlers ?m) = map (Pair sock) (map fst (handlers ?m))"
    by simp
  have d': "distinct (map (\<lambda>p. (sock, fst p)) (handlers ?m))"
    unfolding e using d by (simp add: distinct_map inj_on_def del: map_map)
  have "set (map (\<lambda>p. (sock, fst p)) (handlers ?m)) = Pair sock ` (fst ` set (handlers ?m))"
    by (simp add: image_image)
  also have "\<dots> = (\<lambda>name. (sock, prefix @ '':'' @ name)) ` registeredNames ops"
    unfolding k by (simp add: image_image)
  finally have k': "set (map (\<lambda>p. (sock, fst p)) (handlers ?m))
       = (\<lambda>name. (sock, prefix @ '':'' @ name)) ` registeredNames ops" .
  show ?thesis using d' k'
    by (simp add: onSocketDisconnect_def onSocketConnect_def)
qed

text \<open>
  One handler is registered before the first connect, one after it, and the first is
  registered again; after the disconnect, the connect on socket 2 announces the two
  names once each, in the order of the map.
\<close>

theorem reconnect_replays_registrations_witness:
  "announced (onSocketConnect (onSocketDisconnect
      (runRpcOps ''s1'' [Register ''bash'' (\<lambda>p. Inr JNull), Connect 1,
                         Register ''readFile'' (\<lambda>p. Inr p),
                         Register ''bash'' (\<lambda>p. Inr (JBool True))])) 2)
     = [(1, ''s1:bash''), (1, ''s1:readFile''), (1, ''s1:bash''),
        (2, ''s1:bash''), (2, ''s1:readFile'')]
   \<and> registeredNames [Register ''bash'' (\<lambda>p. Inr JNull), Connect 1,
                       Register ''readFile'' (\<lambda>p. Inr p),
                       Register ''bash'' (\<lambda>p. Inr (JBool True))] = {''bash'', ''readFile''}"
  using reconnect_replays_registrations
    [of "''s1''" "[Register ''bash'' (\<lambda>p. Inr JNull), Connect 1,
                   Register ''readFile'' (\<lambda>p. Inr p),
                   Register ''bash'' (\<lambda>p. Inr (JBool True))]" 2]
  by (auto simp: runRpcOps_def newRpcHandlerManager_def registerHandler_def
        getPrefixedMethod_def onSocketConnect_def Let_def registeredNames_def)

text \<open>
  Property X3. A handler that returns \<^verbatim>\<open>undefined\<close> gets an error response: \<^verbatim>\<open>JSON.stringify\<close> gives
  \<^verbatim>\<open>undefined\<close>, and the read of \<^verbatim>\<open>response.length\<close> for the log line throws inside the
  \<^verbatim>\<open>try\<close> block.
\<close>

theorem handleRequest_undefined_result:
  \<open>map_of (handlers m) (method req) = Some h
     \<and> h (parseParams parse (params req)) = Inr JUndefined \<longrightarrow>
   handleRequest parse m req
     = (''{"error":"Cannot read properties of undefined (reading 'length')"}'', m)\<close>
  by (simp add: handleRequest_def handleRequestTry_def callHandler_def caughtMessage_def
        errorResponse_def quoteJSON_def escapeChar_def)

theorem handleRequest_undefined_result_witness:
  \<open>fst (handleRequest Map.empty (runRpcOps ''s1'' [Register ''noop'' (\<lambda>p. Inr JUndefined)])
      \<lparr>method = ''s1:noop'', params = ''{}''\<rparr>)
     = ''{"error":"Cannot read properties of undefined (reading 'length')"}''\<close>
proof -
  let ?m = "runRpcOps ''s1'' [Register ''noop'' (\<lambda>p. Inr JUndefined)]"
  have hs: "handlers ?m = [(''s1:noop'', \<lambda>p. Inr JUndefined)]"
    by (simp add: runRpcOps_def newRpcHandlerManager_def registerHandler_def
          getPrefixedMethod_def Let_def)
  have a: "map_of (handlers ?m) (method \<lparr>method = ''s1:noop'', params = ''{}''\<rparr>)
             = Some (\<lambda>p. Inr JUndefined)"
    by (simp add: hs)
  show ?thesis
    using handleRequest_undefined_result
      [of ?m "\<lparr>method = ''s1:noop'', params = ''{}''\<rparr>" "\<lambda>p. Inr JUndefined" Map.empty] a
    by simp
qed

section \<open>Properties of inbound session updates\<close>

lemma applyMetadataPush_frame:
  "agentState (applyMetadataPush parse md s) = agentState s"
  "agentStateVersion (applyMetadataPush parse md s) = agentStateVersion s"
  by (simp_all add: applyMetadataPush_def logDebug_def split: option.splits prod.splits)

lemma applyAgentStatePush_frame:
  "metadata (applyAgentStatePush parse ast s) = metadata s"
  "metadataVersion (applyAgentStatePush parse ast s) = metadataVersion s"
  by (simp_all add: applyAgentStatePush_def logDebug_def split: option.splits prod.splits)

lemma handleUpdate_session_metadata:
  "metadata (handleUpdate parse usch s (UpdateSession md ast))
     = metadata (applyMetadataPush parse md s)"
  "metadataVersion (handleUpdate parse usch s (UpdateSession md ast))
     = metadataVersion (applyMetadataPush parse md s)"
  by (simp_all add: handleUpdate_def Let_def applyAgentStatePush_frame)
     (simp_all add: applyMetadataPush_def logDebug_def split: option.splits prod.splits)

lemma handleUpdate_session_agentState:
  "agentState (handleUpdate parse usch s (UpdateSession md ast))
     = agentState (applyAgentStatePush parse ast s)"
  "agentStateVersion (handleUpdate parse usch s (UpdateSession md ast))
     = agentStateVersion (applyAgentStatePush parse ast s)"
  by (simp_all add: handleUpdate_def Let_def)
     (simp_all add: applyAgentStatePush_def applyMetadataPush_frame logDebug_def
        split: option.splits prod.splits)

text \<open>
  Claim C5, as amended. An \<^verbatim>\<open>update-session\<close> push changes the metadata document or its
  version only if it carries a metadata version strictly greater than the local one.
  When it does, and the carried value is not a string that \<^verbatim>\<open>JSON.parse\<close> rejects, the
  local document and version become the carried (decoded) value and version. A push whose
  version is equal to or less than the local one leaves both as they were. The same
  holds for the agent state, whose value is decoded by \<open>decodeAgentState\<close>.
\<close>

theorem push_applied_when_newer:
  "((metadata (handleUpdate parse usch s (UpdateSession md ast)) \<noteq> metadata s
      \<or> metadataVersion (handleUpdate parse usch s (UpdateSession md ast)) \<noteq> metadataVersion s) \<longrightarrow>
       (\<exists>val ver. md = Some (val, ver) \<and> ver > metadataVersion s))
   \<and> (\<forall>val ver d. md = Some (val, ver) \<and> ver > metadataVersion s
          \<and> decodeDocument parse val = Some d \<longrightarrow>
        metadata (handleUpdate parse usch s (UpdateSession md ast)) = d
        \<and> metadataVersion (handleUpdate parse usch s (UpdateSession md ast)) = ver)
   \<and> (\<forall>val ver. md = Some (val, ver) \<and> ver \<le> metadataVersion s \<longrightarrow>
        metadata (handleUpdate parse usch s (UpdateSession md ast)) = metadata s
        \<and> metadataVersion (handleUpdate parse usch s (UpdateSession md ast)) = metadataVersion s)
   \<and> ((agentState (handleUpdate parse usch s (UpdateSession md ast)) \<noteq> agentState s
      \<or> agentStateVersion (handleUpdate parse usch s (UpdateSession md ast)) \<noteq> agentStateVersion s) \<longrightarrow>
       (\<exists>val ver. ast = Some (val, ver) \<and> ver > agentStateVersion s))
   \<and> (\<forall>val ver d. ast = Some (val, ver) \<and> ver > agentStateVersion s
          \<and> decodeAgentState parse val = Some d \<longrightarrow>
        agentState (handleUpdate parse usch s (UpdateSession md ast)) = d
        \<and> agentStateVersion (handleUpdate parse usch s (UpdateSession md ast)) = ver)
   \<and> (\<forall>val ver. ast = Some (val, ver) \<and> ver \<le> agentStateVersion s \<longrightarrow>
        agentState (handleUpdate parse usch s (UpdateSession md ast)) = agentState s
        \<and> agentStateVersion (handleUpdate parse usch s (UpdateSession md ast)) = agentStateVersion s)"
  unfolding handleUpdate_session_metadata handleUpdate_session_agentState
  by (auto simp: applyMetadataPush_def applyAgentStatePush_def logDebug_def
        split: option.splits prod.splits if_splits)

text \<open>
  A push of version 4 onto a client at version 3 is applied: the metadata becomes the
  parsed value, and the agent state, pushed with the stale version 0, stays.
\<close>

theorem push_applied_when_newer_witness:
  \<open>metadata (handleUpdate (map_of [(''{"path":"/home"}'', JObj [(''path'', JStr ''/home'')])])
        Map.empty (newApiSessionClient ''s1'' (JObj [(''path'', JStr ''/tmp'')]) 3 JNull 0)
        (UpdateSession (Some (JStr ''{"path":"/home"}'', 4)) (Some (JObj [], 0))))
      = JObj [(''path'', JStr ''/home'')]
   \<and> metadataVersion (handleUpdate (map_of [(''{"path":"/home"}'', JObj [(''path'', JStr ''/home'')])])
        Map.empty (newApiSessionClient ''s1'' (JObj [(''path'', JStr ''/tmp'')]) 3 JNull 0)
        (UpdateSession (Some (JStr ''{"path":"/home"}'', 4)) (Some (JObj [], 0)))) = 4
   \<and> agentState (handleUpdate (map_of [(''{"path":"/home"}'', JObj [(''path'', JStr ''/home'')])])
        Map.empty (newApiSessionClient ''s1'' (JObj [(''path'', JStr ''/tmp'')]) 3 JNull 0)
        (UpdateSession (Some (JStr ''{"path":"/home"}'', 4)) (Some (JObj [], 0)))) = JNull
   \<and> agentStateVersion (handleUpdate (map_of [(''{"path":"/home"}'', JObj [(''path'', JStr ''/home'')])])
        Map.empty (newApiSessionClient ''s1'' (JObj [(''path'', JStr ''/tmp'')]) 3 JNull 0)
        (UpdateSession (Some (JStr ''{"path":"/home"}'', 4)) (Some (JObj [], 0)))) = 0\<close>
  using push_applied_when_newer
    [where parse = \<open>map_of [(''{"path":"/home"}'', JObj [(''path'', JStr ''/home'')])]\<close>
       and usch = Map.empty
       and s = "newApiSessionClient ''s1'' (JObj [(''path'', JStr ''/tmp'')]) 3 JNull 0"
       and md = \<open>Some (JStr ''{"path":"/home"}'', 4)\<close>
       and ast = "Some (JObj [], 0)"]
  by (simp add: newApiSessionClient_def decodeDocument_def)

text \<open>
  The claim as stated (applied if and only if the version is strictly greater) fails on
  a push whose value does not parse: version 4 is strictly greater than the local 3, and
  neither the document nor the version changes.
\<close>

theorem push_iff_newer_counterexample:
  "4 > metadataVersion (newApiSessionClient ''s1'' (JObj []) 3 JNull 0)
   \<and> metadata (handleUpdate Map.empty Map.empty (newApiSessionClient ''s1'' (JObj []) 3 JNull 0)
        (UpdateSession (Some (JStr ''{oops'', 4)) None)) = JObj []
   \<and> metadataVersion (handleUpdate Map.empty Map.empty (newApiSessionClient ''s1'' (JObj []) 3 JNull 0)
        (UpdateSession (Some (JStr ''{oops'', 4)) None)) = 3"
  unfolding handleUpdate_session_metadata
  by (simp add: applyMetadataPush_def decodeDocument_def logDebug_def newApiSessionClient_def)

text \<open>
  Claim C10. When \<^verbatim>\<open>JSON.parse\<close> throws on the metadata value of a push (a string), the
  local metadata and its version are both as before; likewise for the agent state, where
  \<^verbatim>\<open>JSON.parse\<close> is called on a non-empty string. And whenever a push changes a version,
  the new version is the pushed one and the local document is the decoded pushed value:
  no push advances a version without installing its value.
\<close>

theorem push_atomic:
  "(parse str = None \<longrightarrow>
      metadata (handleUpdate parse usch s (UpdateSession (Some (JStr str, ver)) ast)) = metadata s
      \<and> metadataVersion (handleUpdate parse usch s (UpdateSession (Some (JStr str, ver)) ast))
          = metadataVersion s)
   \<and> (str \<noteq> [] \<and> parse str = None \<longrightarrow>
      agentState (handleUpdate parse usch s (UpdateSession md (Some (JStr str, ver)))) = agentState s
      \<and> agentStateVersion (handleUpdate parse usch s (UpdateSession md (Some (JStr str, ver))))
          = agentStateVersion s)
   \<and> (metadataVersion (handleUpdate parse usch s (UpdateSession md ast)) \<noteq> metadataVersion s \<longrightarrow>
        (\<exists>val. md = Some (val, metadataVersion (handleUpdate parse usch s (UpdateSession md ast)))
           \<and> decodeDocument parse val
               = Some (metadata (handleUpdate parse usch s (UpdateSession md ast)))))
   \<and> (agentStateVersion (handleUpdate parse usch s (UpdateSession md ast)) \<noteq> agentStateVersion s \<longrightarrow>
        (\<exists>val. ast = Some (val, agentStateVersion (handleUpdate parse usch s (UpdateSession md ast)))
           \<and> decodeAgentState parse val
               = Some (agentState (handleUpdate parse usch s (UpdateSession md ast)))))"
  unfolding handleUpdate_session_metadata handleUpdate_session_agentState
  by (auto simp: applyMetadataPush_def applyAgentStatePush_def decodeDocument_def
        decodeAgentState_def logDebug_def split: option.splits prod.splits if_splits)

text \<open>
  A push of version 9 for both documents, each with a value that does not parse, onto a
  client at versions 3 and 2: all four fields stay.
\<close>

theorem push_atomic_witness:
  "metadata (handleUpdate Map.empty Map.empty
        (newApiSessionClient ''s1'' (JObj [(''path'', JStr ''/tmp'')]) 3 (JObj []) 2)
        (UpdateSession (Some (JStr ''{oops'', 9)) (Some (JStr ''{oops'', 9))))
      = JObj [(''path'', JStr ''/tmp'')]
   \<and> metadataVersion (handleUpdate Map.empty Map.empty
        (newApiSessionClient ''s1'' (JObj [(''path'', JStr ''/tmp'')]) 3 (JObj []) 2)
        (UpdateSession (Some (JStr ''{oops'', 9)) (Some (JStr ''{oops'', 9)))) = 3
   \<and> agentState (handleUpdate Map.empty Map.empty
        (newApiSessionClient ''s1'' (JObj [(''path'', JStr ''/tmp'')]) 3 (JObj []) 2)
        (UpdateSession (Some (JStr ''{oops'', 9)) (Some (JStr ''{oops'', 9)))) = JObj []
   \<and> agentStateVersion (handleUpdate Map.empty Map.empty
        (newApiSessionClient ''s1'' (JObj [(''path'', JStr ''/tmp'')]) 3 (JObj []) 2)
        (UpdateSession (Some (JStr ''{oops'', 9)) (Some (JStr ''{oops'', 9)))) = 2"
  using push_atomic
    [where parse = Map.empty and usch = Map.empty and str = "''{oops''" and ver = 9
       and s = "newApiSessionClient ''s1'' (JObj [(''path'', JStr ''/tmp'')]) 3 (JObj []) 2"
       and md = "Some (JStr ''{oops'', 9)" and ast = "Some (JStr ''{oops'', 9)"]
  by (simp add: newApiSessionClient_def)

section \<open>Properties of inbound messages\<close>










lemma unwrap_wrapper:
  assumes "getProp content ''t'' = Inr (JStr ''encrypted'')"
    and "getProp content ''c'' = Inr (JStr str)"
  shows "unwrapContent parse content = (case parse str of Some b \<Rightarrow> Body b | None \<Rightarrow> Skipped)"
  using assms by (simp add: unwrapContent_def)

lemma unwrap_plain:
  assumes "b \<noteq> JNull" "b \<noteq> JUndefined" "getProp b ''t'' \<noteq> Inr (JStr ''encrypted'')"
  shows "unwrapContent parse b = Body b"
proof -
  from assms(1,2) obtain v where v: "getProp b ''t'' = Inr v" by (cases b) auto
  with assms(3) show ?thesis by (simp add: unwrapContent_def)
qed

lemma handleUpdate_body:
  "unwrapContent parse c = Body b \<Longrightarrow>
     (handleUpdate parse usch s (NewMessage c))\<lparr>logged := []\<rparr>
       = (routeMessage usch b s)\<lparr>logged := []\<rparr>"
  by (simp add: handleUpdate_def Let_def handleNewMessage_def routeMessage_def logDebug_def
        split: option.splits)

text \<open>
  Claim C7, as amended. Let the content of a new message be a wrapper: its \<^verbatim>\<open>t\<close> is
  \<^verbatim>\<open>'encrypted'\<close> and its \<^verbatim>\<open>c\<close> is the string \<open>str\<close>. When \<open>str\<close> parses to a payload that
  is not \<^verbatim>\<open>null\<close> and not itself tagged \<^verbatim>\<open>t: 'encrypted'\<close>, handling the wrapper and
  handling the payload as the content leave the client in the same state (the same
  delivery to the callback, the same buffer, the same emitted events), the log lines
  apart. When \<open>str\<close> does not parse, the frame is dropped: the state is as before but for
  two log lines, and nothing is thrown.
\<close>

theorem encrypted_wrapper_transparent:
  assumes "getProp content ''t'' = Inr (JStr ''encrypted'')"
    and "getProp content ''c'' = Inr (JStr str)"
  shows "(\<forall>b. parse str = Some b \<and> b \<noteq> JNull \<and> b \<noteq> JUndefined
         \<and> getProp b ''t'' \<noteq> Inr (JStr ''encrypted'') \<longrightarrow>
       (handleUpdate parse usch s (NewMessage content))\<lparr>logged := []\<rparr>
       = (handleUpdate parse usch s (NewMessage b))\<lparr>logged := []\<rparr>)
   \<and> (parse str = None \<longrightarrow>
       handleUpdate parse usch s (NewMessage content)
       = s\<lparr>logged := logged s @ [''[SOCKET] [UPDATE] Received update:'',
            ''[SOCKET] [UPDATE] Failed to parse encrypted message content - skipping'']\<rparr>)"
proof (intro conjI allI impI)
  fix b assume a: "parse str = Some b \<and> b \<noteq> JNull \<and> b \<noteq> JUndefined
         \<and> getProp b ''t'' \<noteq> Inr (JStr ''encrypted'')"
  have u1: "unwrapContent parse content = Body b"
    using a by (simp add: unwrap_wrapper [OF assms])
  have u2: "unwrapContent parse b = Body b"
    using a by (simp add: unwrap_plain)
  show "(handleUpdate parse usch s (NewMessage content))\<lparr>logged := []\<rparr>
       = (handleUpdate parse usch s (NewMessage b))\<lparr>logged := []\<rparr>"
    unfolding handleUpdate_body [OF u1] handleUpdate_body [OF u2] ..
next
  assume "parse str = None"
  then show "handleUpdate parse usch s (NewMessage content)
       = s\<lparr>logged := logged s @ [''[SOCKET] [UPDATE] Received update:'',
            ''[SOCKET] [UPDATE] Failed to parse encrypted message content - skipping'']\<rparr>"
    by (simp add: handleUpdate_def Let_def handleNewMessage_def unwrap_wrapper [OF assms]
          logDebug_def)
qed

text \<open>
  The spec's Scenario C: the wrapper around \<^verbatim>\<open>{"role":"user","content":"hi"}\<close> is handled
  as that object is; and a wrapper around text that is no JSON changes the log only.
\<close>

theorem encrypted_wrapper_transparent_witness:
  \<open>(handleUpdate (map_of [(''{"role":"user","content":"hi"}'',
                            JObj [(''role'', JStr ''user''), (''content'', JStr ''hi'')])])
       (\<lambda>b. if getProp b ''role'' = Inr (JStr ''user'') then Some b else None)
       (newApiSessionClient ''s1'' (JObj []) 0 JNull 0)
       (NewMessage (JObj [(''t'', JStr ''encrypted''),
                          (''c'', JStr ''{"role":"user","content":"hi"}'')])))\<lparr>logged := []\<rparr>
    = (handleUpdate (map_of [(''{"role":"user","content":"hi"}'',
                            JObj [(''role'', JStr ''user''), (''content'', JStr ''hi'')])])
       (\<lambda>b. if getProp b ''role'' = Inr (JStr ''user'') then Some b else None)
       (newApiSessionClient ''s1'' (JObj []) 0 JNull 0)
       (NewMessage (JObj [(''role'', JStr ''user''), (''content'', JStr ''hi'')])))\<lparr>logged := []\<rparr>
   \<and> handleUpdate Map.empty Map.empty (newApiSessionClient ''s1'' (JObj []) 0 JNull 0)
       (NewMessage (JObj [(''t'', JStr ''encrypted''), (''c'', JStr ''{oops'')]))
    = (newApiSessionClient ''s1'' (JObj []) 0 JNull 0)
        \<lparr>logged := [''[SOCKET] [UPDATE] Received update:'',
            ''[SOCKET] [UPDATE] Failed to parse encrypted message content - skipping'']\<rparr>\<close>
proof -
  have t1: \<open>getProp (JObj [(''t'', JStr ''encrypted''),
                           (''c'', JStr ''{"role":"user","content":"hi"}'')]) ''t''
             = Inr (JStr ''encrypted'')\<close>
    and c1: \<open>getProp (JObj [(''t'', JStr ''encrypted''),
                           (''c'', JStr ''{"role":"user","content":"hi"}'')]) ''c''
             = Inr (JStr ''{"role":"user","content":"hi"}'')\<close>
    and t2: "getProp (JObj [(''t'', JStr ''encrypted''), (''c'', JStr ''{oops'')]) ''t''
             = Inr (JStr ''encrypted'')"
    and c2: "getProp (JObj [(''t'', JStr ''encrypted''), (''c'', JStr ''{oops'')]) ''c''
             = Inr (JStr ''{oops'')"
    by simp_all
  show ?thesis
    using encrypted_wrapper_transparent
      [OF t1 c1,
       where parse = \<open>map_of [(''{"role":"user","content":"hi"}'',
                              JObj [(''role'', JStr ''user''), (''content'', JStr ''hi'')])]\<close>
         and usch = "\<lambda>b. if getProp b ''role'' = Inr (JStr ''user'') then Some b else None"
         and s = "newApiSessionClient ''s1'' (JObj []) 0 JNull 0"]
      encrypted_wrapper_transparent
      [OF t2 c2, where parse = Map.empty and usch = Map.empty
         and s = "newApiSessionClient ''s1'' (JObj []) 0 JNull 0"]
    by (simp add: newApiSessionClient_def)
qed

text \<open>
  The claim as stated fails for two payloads. The wrapper around \<^verbatim>\<open>null\<close> emits a
  \<^verbatim>\<open>'message'\<close> event carrying \<^verbatim>\<open>null\<close>, while \<^verbatim>\<open>null\<close> as the content makes the read of
  \<^verbatim>\<open>content.t\<close> throw, which the handler catches: nothing is emitted. And the wrapper
  around a wrapper is unwrapped once, while the inner wrapper as the content is unwrapped
  itself. (The schema here accepts no body, as \<^verbatim>\<open>UserMessageSchema\<close> accepts none of
  these.)
\<close>

theorem encrypted_wrapper_counterexample:
  \<open>emitted (handleUpdate (map_of [(''null'', JNull)]) Map.empty
       (newApiSessionClient ''s1'' (JObj []) 0 JNull 0)
       (NewMessage (JObj [(''t'', JStr ''encrypted''), (''c'', JStr ''null'')]))) = [JNull]
   \<and> emitted (handleUpdate (map_of [(''null'', JNull)]) Map.empty
       (newApiSessionClient ''s1'' (JObj []) 0 JNull 0)
       (NewMessage JNull)) = []
   \<and> emitted (handleUpdate
         (map_of [(''{"t":"encrypted","c":"1"}'', JObj [(''t'', JStr ''encrypted''), (''c'', JStr ''1'')]),
                  (''1'', JNum 1)])
         Map.empty (newApiSessionClient ''s1'' (JObj []) 0 JNull 0)
         (NewMessage (JObj [(''t'', JStr ''encrypted''), (''c'', JStr ''{"t":"encrypted","c":"1"}'')])))
       = [JObj [(''t'', JStr ''encrypted''), (''c'', JStr ''1'')]]
   \<and> emitted (handleUpdate
         (map_of [(''{"t":"encrypted","c":"1"}'', JObj [(''t'', JStr ''encrypted''), (''c'', JStr ''1'')]),
                  (''1'', JNum 1)])
         Map.empty (newApiSessionClient ''s1'' (JObj []) 0 JNull 0)
         (NewMessage (JObj [(''t'', JStr ''encrypted''), (''c'', JStr ''1'')])))
       = [JNum 1]\<close>
  by (simp add: handleUpdate_def Let_def handleNewMessage_def unwrapContent_def routeMessage_def
        logDebug_def newApiSessionClient_def)

section \<open>Properties of the document versions\<close>

lemma handleNewMessage_versions:
  "metadataVersion (handleNewMessage parse usch c s) = metadataVersion s"
  "agentStateVersion (handleNewMessage parse usch c s) = agentStateVersion s"
  by (simp_all add: handleNewMessage_def routeMessage_def logDebug_def Let_def
        split: unwrapped.splits option.splits)

lemma metadataAnswer_frame:
  "agentStateVersion (fst (metadataAnswer parse ans s)) = agentStateVersion s"
  by (simp add: metadataAnswer_def split: answer.splits option.splits)

lemma agentStateAnswer_frame:
  "metadataVersion (fst (agentStateAnswer parse ans s)) = metadataVersion s"
  by (simp add: agentStateAnswer_def logDebug_def split: answer.splits option.splits)

lemma step_metadataVersion:
  "metadataVersion (step parse usch s ev) = metadataVersion s
   \<or> (metadataVersion (step parse usch s ev) \<in> carriedMetadataVersions ev
       \<and> (metadataVersion s < metadataVersion (step parse usch s ev) \<or> isSuccessAnswer ev))"
proof (cases ev)
  case (Push data)
  show ?thesis
  proof (cases data)
    case (UpdateSession md ast)
    with Push show ?thesis
      by (cases md)
         (auto simp: handleUpdate_session_metadata applyMetadataPush_def logDebug_def
            split: option.splits if_splits)
  qed (simp_all add: Push handleUpdate_def Let_def logDebug_def handleNewMessage_versions)
next
  case (MetadataAnswer ans)
  then show ?thesis
    by (cases ans) (auto simp: metadataAnswer_def split: option.splits)
next
  case (AgentStateAnswer ans)
  then show ?thesis by (simp add: agentStateAnswer_frame)
qed

lemma step_agentStateVersion:
  "agentStateVersion (step parse usch s ev) = agentStateVersion s
   \<or> (agentStateVersion (step parse usch s ev) \<in> carriedAgentStateVersions ev
       \<and> (agentStateVersion s < agentStateVersion (step parse usch s ev) \<or> isSuccessAnswer ev))"
proof (cases ev)
  case (Push data)
  show ?thesis
  proof (cases data)
    case (UpdateSession md ast)
    with Push show ?thesis
      by (cases ast)
         (auto simp: handleUpdate_session_agentState applyAgentStatePush_def logDebug_def
            split: option.splits if_splits)
  qed (simp_all add: Push handleUpdate_def Let_def logDebug_def handleNewMessage_versions)
next
  case (MetadataAnswer ans)
  then show ?thesis by (simp add: metadataAnswer_frame)
next
  case (AgentStateAnswer ans)
  then show ?thesis
    by (cases ans) (auto simp: agentStateAnswer_def logDebug_def split: option.splits)
qed

lemma step_mono:
  assumes "\<not> isSuccessAnswer ev"
  shows "metadataVersion s \<le> metadataVersion (step parse usch s ev)"
    and "agentStateVersion s \<le> agentStateVersion (step parse usch s ev)"
  using assms step_metadataVersion [of parse usch s ev] step_agentStateVersion [of parse usch s ev]
  by auto

lemma run_Cons: "run parse usch s (ev # evs) = run parse usch (step parse usch s ev) evs"
  by (simp add: run_def)

lemma run_append: "run parse usch s (xs @ ys) = run parse usch (run parse usch s xs) ys"
  by (simp add: run_def)

lemma run_mono:
  "list_all (\<lambda>ev. \<not> isSuccessAnswer ev) evs \<Longrightarrow>
     metadataVersion s \<le> metadataVersion (run parse usch s evs)
     \<and> agentStateVersion s \<le> agentStateVersion (run parse usch s evs)"
proof (induction evs arbitrary: s)
  case Nil
  show ?case by (simp add: run_def)
next
  case (Cons ev evs)
  then have f: "\<not> isSuccessAnswer ev" and r: "list_all (\<lambda>ev. \<not> isSuccessAnswer ev) evs"
    by simp_all
  from step_mono [OF f, of s parse usch] Cons.IH [OF r, of "step parse usch s ev"] show ?case
    by (simp add: run_Cons)
qed

text \<open>
  Claim C1 does not hold of the \<^verbatim>\<open>success\<close> branch of \<^verbatim>\<open>updateMetadata\<close> and
  \<^verbatim>\<open>updateAgentState\<close>. The push handler and the \<^verbatim>\<open>version-mismatch\<close> branch assign a
  version only after comparing it with the local one; the \<^verbatim>\<open>success\<close> branch assigns
  \<^verbatim>\<open>answer.version\<close> as it comes. A client at metadata version 5 has a write accepted as
  version 6; a push of version 7 is handled before the answer to the write; the answer
  then takes the local version from 7 back to 6. A \<^verbatim>\<open>version-mismatch\<close> answer of
  version 6 in the same place leaves it at 7.
\<close>

theorem late_success_lowers_version:
  "metadataVersion (newApiSessionClient ''s1'' (JObj []) 5 JNull 0) = 5
   \<and> metadataVersion (run Map.empty Map.empty (newApiSessionClient ''s1'' (JObj []) 5 JNull 0)
        [Push (UpdateSession (Some (JObj [(''v'', JNum 7)], 7)) None)]) = 7
   \<and> metadataVersion (run Map.empty Map.empty (newApiSessionClient ''s1'' (JObj []) 5 JNull 0)
        [Push (UpdateSession (Some (JObj [(''v'', JNum 7)], 7)) None),
         MetadataAnswer (Success 6 (JObj [(''v'', JNum 6)]))]) = 6
   \<and> metadata (run Map.empty Map.empty (newApiSessionClient ''s1'' (JObj []) 5 JNull 0)
        [Push (UpdateSession (Some (JObj [(''v'', JNum 7)], 7)) None),
         MetadataAnswer (Success 6 (JObj [(''v'', JNum 6)]))]) = JObj [(''v'', JNum 6)]
   \<and> metadataVersion (run Map.empty Map.empty (newApiSessionClient ''s1'' (JObj []) 5 JNull 0)
        [Push (UpdateSession (Some (JObj [(''v'', JNum 7)], 7)) None),
         MetadataAnswer (VersionMismatch 6 (JObj [(''v'', JNum 6)]))]) = 7
   \<and> agentStateVersion (run Map.empty Map.empty (newApiSessionClient ''s1'' (JObj []) 0 JNull 5)
        [Push (UpdateSession None (Some (JObj [(''v'', JNum 7)], 7))),
         AgentStateAnswer (Success 6 (JObj [(''v'', JNum 6)]))]) = 6"
  by (simp add: run_def handleUpdate_session_metadata handleUpdate_session_agentState
        applyMetadataPush_def applyAgentStatePush_def agentStateAnswer_def logDebug_def
        decodeAgentState_def metadataAnswer_def decodeDocument_def newApiSessionClient_def)

text \<open>
  Property X4. Over every sequence of inbound updates and answers that holds no
  \<^verbatim>\<open>success\<close> answer, the local \<^verbatim>\<open>metadataVersion\<close> and \<^verbatim>\<open>agentStateVersion\<close> never
  decrease: the push handler and the \<^verbatim>\<open>version-mismatch\<close> branch are guarded.
\<close>

theorem guarded_events_monotone:
  assumes "list_all (\<lambda>ev. \<not> isSuccessAnswer ev) evs"
  shows "\<forall>i j. i \<le> j \<and> j \<le> length evs \<longrightarrow>
            metadataVersion (run parse usch s (take i evs))
              \<le> metadataVersion (run parse usch s (take j evs))
          \<and> agentStateVersion (run parse usch s (take i evs))
              \<le> agentStateVersion (run parse usch s (take j evs))"
proof (intro allI impI)
  fix i j assume ij: "i \<le> j \<and> j \<le> length evs"
  have split: "take j evs = take i evs @ take (j - i) (drop i evs)"
    using ij by (metis le_add_diff_inverse take_add)
  have "list_all (\<lambda>ev. \<not> isSuccessAnswer ev) (take (j - i) (drop i evs))"
    using assms by (auto simp: list_all_iff dest: in_set_takeD in_set_dropD)
  from run_mono [OF this]
  show "metadataVersion (run parse usch s (take i evs))
              \<le> metadataVersion (run parse usch s (take j evs))
          \<and> agentStateVersion (run parse usch s (take i evs))
              \<le> agentStateVersion (run parse usch s (take j evs))"
    unfolding split run_append by simp
qed

theorem guarded_events_monotone_witness:
  "metadataVersion (run Map.empty Map.empty (newApiSessionClient ''s1'' (JObj []) 5 JNull 0)
        (take 1 [Push (UpdateSession (Some (JObj [(''v'', JNum 7)], 7)) None),
                 MetadataAnswer (VersionMismatch 6 JUndefined),
                 MetadataAnswer (VersionMismatch 9 JUndefined),
                 Push (UpdateSession (Some (JObj [], 2)) (Some (JNull, 1)))]))
      \<le> metadataVersion (run Map.empty Map.empty (newApiSessionClient ''s1'' (JObj []) 5 JNull 0)
        (take 3 [Push (UpdateSession (Some (JObj [(''v'', JNum 7)], 7)) None),
                 MetadataAnswer (VersionMismatch 6 JUndefined),
                 MetadataAnswer (VersionMismatch 9 JUndefined),
                 Push (UpdateSession (Some (JObj [], 2)) (Some (JNull, 1)))]))"
proof -
  let ?evs = "[Push (UpdateSession (Some (JObj [(''v'', JNum 7)], 7)) None),
       MetadataAnswer (VersionMismatch 6 JUndefined),
       MetadataAnswer (VersionMismatch 9 JUndefined),
       Push (UpdateSession (Some (JObj [], 2)) (Some (JNull, 1)))]"
  have h: "list_all (\<lambda>ev. \<not> isSuccessAnswer ev) ?evs" by simp
  from guarded_events_monotone [OF h, THEN spec, THEN spec, of 1 3]
  show ?thesis by simp
qed

text \<open>
  Property X5. Over every sequence of inbound updates and answers, each local version is
  its initial value or a version carried by one of the events: no version is computed
  locally.
\<close>

theorem versions_come_from_events:
  "metadataVersion (run parse usch s evs)
      \<in> insert (metadataVersion s) (\<Union> (carriedMetadataVersions ` set evs))
   \<and> agentStateVersion (run parse usch s evs)
      \<in> insert (agentStateVersion s) (\<Union> (carriedAgentStateVersions ` set evs))"
proof (induction evs arbitrary: s)
  case Nil
  show ?case by (simp add: run_def)
next
  case (Cons ev evs)
  from Cons.IH [of "step parse usch s ev"]
    step_metadataVersion [of parse usch s ev] step_agentStateVersion [of parse usch s ev]
  show ?case by (auto simp: run_Cons)
qed

section \<open>Properties of conditional writes\<close>

lemma metadataAttempt_mismatch:
  assumes "respond (metadataRequest handler s) = VersionMismatch ver doc"
    and "metadataVersion s < ver" and "decodeDocument parse doc = Some d"
  shows "metadataAttempt parse handler respond s =
     ((socketEmit (EmitWithAck ''update-metadata'' (metadataRequest handler s)) s)
        \<lparr>metadataVersion := ver, metadata := d\<rparr>,
      Some (MismatchError ''Metadata version mismatch''))"
  using assms by (simp add: metadataAttempt_def Let_def metadataAnswer_def socketEmit_def)

lemma metadataAttempt_success:
  assumes "respond (metadataRequest handler s) = Success ver doc"
    and "decodeDocument parse doc = Some d"
  shows "metadataAttempt parse handler respond s =
     ((socketEmit (EmitWithAck ''update-metadata'' (metadataRequest handler s)) s)
        \<lparr>metadata := d, metadataVersion := ver\<rparr>, None)"
  using assms by (simp add: metadataAttempt_def Let_def metadataAnswer_def socketEmit_def)

lemma agentStateAttempt_mismatch:
  assumes "respond (agentStateRequest handler s) = VersionMismatch ver doc"
    and "agentStateVersion s < ver" and "decodeAgentState parse doc = Some d"
  shows "agentStateAttempt parse handler respond s =
     ((socketEmit (EmitWithAck ''update-state'' (agentStateRequest handler s)) s)
        \<lparr>agentStateVersion := ver, agentState := d\<rparr>,
      Some (MismatchError ''Agent state version mismatch''))"
  using assms by (simp add: agentStateAttempt_def Let_def agentStateAnswer_def socketEmit_def)

lemma agentStateAttempt_success:
  assumes "respond (agentStateRequest handler s) = Success ver doc"
    and "decodeAgentState parse doc = Some d"
  shows "agentStateAttempt parse handler respond s =
     (logDebug ''Agent state updated''
        ((socketEmit (EmitWithAck ''update-state'' (agentStateRequest handler s)) s)
           \<lparr>agentState := d, agentStateVersion := ver\<rparr>), None)"
  using assms by (simp add: agentStateAttempt_def Let_def agentStateAnswer_def socketEmit_def)

text \<open>
  Claim C2, as amended. Let the answer to an attempt of \<^verbatim>\<open>updateMetadata\<close> be a
  \<^verbatim>\<open>version-mismatch\<close> with a version strictly greater than the local one and an attached
  document that decodes to \<open>d\<close> (it is not a string that \<^verbatim>\<open>JSON.parse\<close> rejects). Then the attempt throws \<^verbatim>\<open>'Metadata version mismatch'\<close> after the local version
  and document have become the answer's; the retry loop goes on from that state with the
  remaining answers; the next request carries the adopted version as \<^verbatim>\<open>expectedVersion\<close>
  and the handler applied to the adopted document; and if that request is answered with
  \<^verbatim>\<open>success\<close>, the update returns with the version and document of that answer. The
  same holds for \<^verbatim>\<open>updateAgentState\<close>. The retry loop is \<open>backoff\<close>.
\<close>

theorem mismatch_adopts_then_retries:
  "(r1 (metadataRequest handler s) = VersionMismatch ver doc \<and> metadataVersion s < ver
      \<and> decodeDocument parse doc = Some d \<longrightarrow>
      snd (metadataAttempt parse handler r1 s) = Some (MismatchError ''Metadata version mismatch'')
      \<and> metadataVersion (fst (metadataAttempt parse handler r1 s)) = ver
      \<and> metadata (fst (metadataAttempt parse handler r1 s)) = d
      \<and> updateMetadata parse handler (r1 # remote) s
          = updateMetadata parse handler remote (fst (metadataAttempt parse handler r1 s))
      \<and> metadataRequest handler (fst (metadataAttempt parse handler r1 s))
          = JObj [(''sid'', JStr (sessionId s)), (''expectedVersion'', JNum ver),
                  (''metadata'', jsonString (handler d))]
      \<and> (\<forall>r2 ver2 doc2 d2.
            r2 (metadataRequest handler (fst (metadataAttempt parse handler r1 s))) = Success ver2 doc2
            \<and> decodeDocument parse doc2 = Some d2 \<longrightarrow>
            map_option metadataVersion (updateMetadata parse handler [r1, r2] s) = Some ver2
            \<and> map_option metadata (updateMetadata parse handler [r1, r2] s) = Some d2))
   \<and> (r1 (agentStateRequest handler s) = VersionMismatch ver doc \<and> agentStateVersion s < ver
      \<and> decodeAgentState parse doc = Some d \<longrightarrow>
      snd (agentStateAttempt parse handler r1 s)
          = Some (MismatchError ''Agent state version mismatch'')
      \<and> agentStateVersion (fst (agentStateAttempt parse handler r1 s)) = ver
      \<and> agentState (fst (agentStateAttempt parse handler r1 s)) = d
      \<and> updateAgentState parse handler (r1 # remote) s
          = backoff (agentStateAttempt parse handler) remote
              (fst (agentStateAttempt parse handler r1 (logDebug ''Updating agent state'' s)))
      \<and> agentStateRequest handler (fst (agentStateAttempt parse handler r1 s))
          = JObj [(''sid'', JStr (sessionId s)), (''expectedVersion'', JNum ver),
                  (''agentState'',
                     if truthy (handler (if truthy d then d else JObj []))
                     then jsonString (handler (if truthy d then d else JObj [])) else JNull)]
      \<and> (\<forall>r2 ver2 doc2 d2.
            r2 (agentStateRequest handler (fst (agentStateAttempt parse handler r1 s)))
              = Success ver2 doc2
            \<and> decodeAgentState parse doc2 = Some d2 \<longrightarrow>
            map_option agentStateVersion (updateAgentState parse handler [r1, r2] s) = Some ver2
            \<and> map_option agentState (updateAgentState parse handler [r1, r2] s) = Some d2))"
proof (intro conjI impI)
  assume a: "r1 (metadataRequest handler s) = VersionMismatch ver doc \<and> metadataVersion s < ver
      \<and> decodeDocument parse doc = Some d"
  then have at: "metadataAttempt parse handler r1 s =
     ((socketEmit (EmitWithAck ''update-metadata'' (metadataRequest handler s)) s)
        \<lparr>metadataVersion := ver, metadata := d\<rparr>,
      Some (MismatchError ''Metadata version mismatch''))"
    by (simp add: metadataAttempt_mismatch)
  show "snd (metadataAttempt parse handler r1 s) = Some (MismatchError ''Metadata version mismatch'')"
    "metadataVersion (fst (metadataAttempt parse handler r1 s)) = ver"
    "metadata (fst (metadataAttempt parse handler r1 s)) = d"
    by (simp_all add: at)
  show "updateMetadata parse handler (r1 # remote) s
          = updateMetadata parse handler remote (fst (metadataAttempt parse handler r1 s))"
    by (simp add: updateMetadata_def at)
  show "metadataRequest handler (fst (metadataAttempt parse handler r1 s))
          = JObj [(''sid'', JStr (sessionId s)), (''expectedVersion'', JNum ver),
                  (''metadata'', jsonString (handler d))]"
    by (simp add: at metadataRequest_def socketEmit_def)
  show "\<forall>r2 ver2 doc2 d2.
            r2 (metadataRequest handler (fst (metadataAttempt parse handler r1 s))) = Success ver2 doc2
            \<and> decodeDocument parse doc2 = Some d2 \<longrightarrow>
            map_option metadataVersion (updateMetadata parse handler [r1, r2] s) = Some ver2
            \<and> map_option metadata (updateMetadata parse handler [r1, r2] s) = Some d2"
  proof (intro allI impI)
    fix r2 ver2 doc2 d2
    assume b: "r2 (metadataRequest handler (fst (metadataAttempt parse handler r1 s))) = Success ver2 doc2
            \<and> decodeDocument parse doc2 = Some d2"
    from b have "metadataAttempt parse handler r2 (fst (metadataAttempt parse handler r1 s)) =
      ((socketEmit (EmitWithAck ''update-metadata''
           (metadataRequest handler (fst (metadataAttempt parse handler r1 s))))
           (fst (metadataAttempt parse handler r1 s)))
        \<lparr>metadata := d2, metadataVersion := ver2\<rparr>, None)"
      by (simp add: metadataAttempt_success)
    then show "map_option metadataVersion (updateMetadata parse handler [r1, r2] s) = Some ver2
            \<and> map_option metadata (updateMetadata parse handler [r1, r2] s) = Some d2"
      by (simp add: updateMetadata_def at)
  qed
next
  let ?s1 = "logDebug ''Updating agent state'' s"
  assume a: "r1 (agentStateRequest handler s) = VersionMismatch ver doc \<and> agentStateVersion s < ver
      \<and> decodeAgentState parse doc = Some d"
  have rq: "agentStateRequest handler ?s1 = agentStateRequest handler s"
    by (simp add: agentStateRequest_def logDebug_def)
  from a have at: "agentStateAttempt parse handler r1 s =
     ((socketEmit (EmitWithAck ''update-state'' (agentStateRequest handler s)) s)
        \<lparr>agentStateVersion := ver, agentState := d\<rparr>,
      Some (MismatchError ''Agent state version mismatch''))"
    by (simp add: agentStateAttempt_mismatch)
  from a have at1: "agentStateAttempt parse handler r1 ?s1 =
     ((socketEmit (EmitWithAck ''update-state'' (agentStateRequest handler s)) ?s1)
        \<lparr>agentStateVersion := ver, agentState := d\<rparr>,
      Some (MismatchError ''Agent state version mismatch''))"
    using agentStateAttempt_mismatch [of r1 handler ?s1 ver doc parse d]
    by (simp add: rq) (simp add: logDebug_def)
  have rq2: "agentStateRequest handler (fst (agentStateAttempt parse handler r1 ?s1))
      = agentStateRequest handler (fst (agentStateAttempt parse handler r1 s))"
    unfolding at at1 by (simp add: agentStateRequest_def socketEmit_def logDebug_def)
  show "snd (agentStateAttempt parse handler r1 s)
          = Some (MismatchError ''Agent state version mismatch'')"
    "agentStateVersion (fst (agentStateAttempt parse handler r1 s)) = ver"
    "agentState (fst (agentStateAttempt parse handler r1 s)) = d"
    by (simp_all add: at)
  show "updateAgentState parse handler (r1 # remote) s
          = backoff (agentStateAttempt parse handler) remote
              (fst (agentStateAttempt parse handler r1 (logDebug ''Updating agent state'' s)))"
    by (simp add: updateAgentState_def at1)
  show "agentStateRequest handler (fst (agentStateAttempt parse handler r1 s))
          = JObj [(''sid'', JStr (sessionId s)), (''expectedVersion'', JNum ver),
                  (''agentState'',
                     if truthy (handler (if truthy d then d else JObj []))
                     then jsonString (handler (if truthy d then d else JObj [])) else JNull)]"
    by (simp add: at agentStateRequest_def socketEmit_def Let_def)
  show "\<forall>r2 ver2 doc2 d2.
            r2 (agentStateRequest handler (fst (agentStateAttempt parse handler r1 s)))
              = Success ver2 doc2
            \<and> decodeAgentState parse doc2 = Some d2 \<longrightarrow>
            map_option agentStateVersion (updateAgentState parse handler [r1, r2] s) = Some ver2
            \<and> map_option agentState (updateAgentState parse handler [r1, r2] s) = Some d2"
  proof (intro allI impI)
    fix r2 ver2 doc2 d2
    assume b: "r2 (agentStateRequest handler (fst (agentStateAttempt parse handler r1 s)))
              = Success ver2 doc2
            \<and> decodeAgentState parse doc2 = Some d2"
    let ?s2 = "fst (agentStateAttempt parse handler r1 ?s1)"
    from b have at2: "agentStateAttempt parse handler r2 ?s2 =
      (logDebug ''Agent state updated''
        ((socketEmit (EmitWithAck ''update-state'' (agentStateRequest handler ?s2)) ?s2)
        \<lparr>agentState := d2, agentStateVersion := ver2\<rparr>), None)"
      by (simp add: agentStateAttempt_success rq2)
    have step1: "backoff (agentStateAttempt parse handler) [r1, r2] ?s1
        = backoff (agentStateAttempt parse handler) [r2] ?s2"
      by (simp add: at1)
    have step2: "backoff (agentStateAttempt parse handler) [r2] ?s2
        = Some (logDebug ''Agent state updated''
            ((socketEmit (EmitWithAck ''update-state'' (agentStateRequest handler ?s2)) ?s2)
            \<lparr>agentState := d2, agentStateVersion := ver2\<rparr>))"
      by (simp add: at2)
    show "map_option agentStateVersion (updateAgentState parse handler [r1, r2] s) = Some ver2
            \<and> map_option agentState (updateAgentState parse handler [r1, r2] s) = Some d2"
      unfolding updateAgentState_def step1 step2 by (simp add: logDebug_def)
  qed
qed

text \<open>
  The spec's Scenario A: local version 5; the handler sets \<^verbatim>\<open>summary\<close> to \<^verbatim>\<open>'x'\<close>; the
  first answer is a mismatch of version 7 with the document \<^verbatim>\<open>{"path":"/srv"}\<close>; the
  second answers \<^verbatim>\<open>success\<close> with version 8 and the document it was sent. The update
  returns at version 8 with \<^verbatim>\<open>summary\<close> set on version 7's document.
\<close>

theorem mismatch_adopts_then_retries_witness:
  \<open>map_option metadataVersion
      (updateMetadata
         (map_of [(''{"path":"/srv"}'', JObj [(''path'', JStr ''/srv'')]),
                  (''{"path":"/srv","summary":"x"}'',
                     JObj [(''path'', JStr ''/srv''), (''summary'', JStr ''x'')])])
         (\<lambda>m. case m of JObj ps \<Rightarrow> JObj (mapSet ''summary'' (JStr ''x'') ps)
                        | _ \<Rightarrow> JObj [(''summary'', JStr ''x'')])
         [\<lambda>req. VersionMismatch 7 (JStr ''{"path":"/srv"}''),
          \<lambda>req. case getProp req ''metadata'' of Inr doc \<Rightarrow> Success 8 doc | Inl e \<Rightarrow> OtherResult]
         (newApiSessionClient ''s1'' (JObj [(''path'', JStr ''/tmp'')]) 5 JNull 0)) = Some 8
   \<and> map_option metadata
      (updateMetadata
         (map_of [(''{"path":"/srv"}'', JObj [(''path'', JStr ''/srv'')]),
                  (''{"path":"/srv","summary":"x"}'',
                     JObj [(''path'', JStr ''/srv''), (''summary'', JStr ''x'')])])
         (\<lambda>m. case m of JObj ps \<Rightarrow> JObj (mapSet ''summary'' (JStr ''x'') ps)
                        | _ \<Rightarrow> JObj [(''summary'', JStr ''x'')])
         [\<lambda>req. VersionMismatch 7 (JStr ''{"path":"/srv"}''),
          \<lambda>req. case getProp req ''metadata'' of Inr doc \<Rightarrow> Success 8 doc | Inl e \<Rightarrow> OtherResult]
         (newApiSessionClient ''s1'' (JObj [(''path'', JStr ''/tmp'')]) 5 JNull 0))
      = Some (JObj [(''path'', JStr ''/srv''), (''summary'', JStr ''x'')])\<close>
proof -
  let ?parse = \<open>map_of [(''{"path":"/srv"}'', JObj [(''path'', JStr ''/srv'')]),
                  (''{"path":"/srv","summary":"x"}'',
                     JObj [(''path'', JStr ''/srv''), (''summary'', JStr ''x'')])]\<close>
  let ?h = "\<lambda>m. case m of JObj ps \<Rightarrow> JObj (mapSet ''summary'' (JStr ''x'') ps)
                        | _ \<Rightarrow> JObj [(''summary'', JStr ''x'')]"
  let ?r1 = \<open>\<lambda>req :: jsval. VersionMismatch 7 (JStr ''{"path":"/srv"}'')\<close>
  let ?r2 = "\<lambda>req. case getProp req ''metadata'' of Inr doc \<Rightarrow> Success 8 doc | Inl e \<Rightarrow> OtherResult"
  let ?s = "newApiSessionClient ''s1'' (JObj [(''path'', JStr ''/tmp'')]) 5 JNull 0"
  have pre: \<open>?r1 (metadataRequest ?h ?s) = VersionMismatch 7 (JStr ''{"path":"/srv"}'')
      \<and> metadataVersion ?s < 7
      \<and> decodeDocument ?parse (JStr ''{"path":"/srv"}'') = Some (JObj [(''path'', JStr ''/srv'')])\<close>
    by (simp add: newApiSessionClient_def decodeDocument_def)
  note t = mismatch_adopts_then_retries
    [where ?r1.0 = ?r1 and handler = ?h and s = ?s and ver = 7
       and doc = \<open>JStr ''{"path":"/srv"}''\<close> and parse = ?parse
       and d = "JObj [(''path'', JStr ''/srv'')]",
     THEN conjunct1, rule_format, OF pre]
  have str: \<open>jsonString (?h (JObj [(''path'', JStr ''/srv'')]))
      = JStr ''{"path":"/srv","summary":"x"}''\<close>
    by (simp add: jsonString_def quoteJSON_def escapeChar_def)
  have ans: \<open>?r2 (metadataRequest ?h (fst (metadataAttempt ?parse ?h ?r1 ?s)))
      = Success 8 (JStr ''{"path":"/srv","summary":"x"}'')
     \<and> decodeDocument ?parse (JStr ''{"path":"/srv","summary":"x"}'')
      = Some (JObj [(''path'', JStr ''/srv''), (''summary'', JStr ''x'')])\<close>
    unfolding t [THEN conjunct2, THEN conjunct2, THEN conjunct2, THEN conjunct2, THEN conjunct1] str
    by (simp add: decodeDocument_def)
  from t [THEN conjunct2, THEN conjunct2, THEN conjunct2, THEN conjunct2, THEN conjunct2,
          THEN spec [where x = ?r2], THEN spec [where x = 8],
          THEN spec [where x = \<open>JStr ''{"path":"/srv","summary":"x"}''\<close>],
          THEN spec [where x = "JObj [(''path'', JStr ''/srv''), (''summary'', JStr ''x'')]"],
          THEN mp, OF ans]
  show ?thesis .
qed

text \<open>
  The claim as stated (for every newer mismatch answer) fails when the attached document
  is a string that \<^verbatim>\<open>JSON.parse\<close> rejects. The client at version 5 takes the answer's
  version 7 and keeps its own document: the attached value is not adopted. The attempt
  ends with the parse error, and the next request pairs \<^verbatim>\<open>expectedVersion\<close> 7 with the
  handler applied to the document of version 5.
\<close>

theorem mismatch_adopts_counterexample:
  \<open>metadataVersion (newApiSessionClient ''s1'' (JObj [(''path'', JStr ''/tmp'')]) 5 JNull 0) = 5
   \<and> metadataVersion (fst (metadataAttempt Map.empty
        (\<lambda>m. case m of JObj ps \<Rightarrow> JObj (mapSet ''summary'' (JStr ''x'') ps)
                       | _ \<Rightarrow> JObj [(''summary'', JStr ''x'')])
        (\<lambda>req. VersionMismatch 7 (JStr ''{oops''))
        (newApiSessionClient ''s1'' (JObj [(''path'', JStr ''/tmp'')]) 5 JNull 0))) = 7
   \<and> metadata (fst (metadataAttempt Map.empty
        (\<lambda>m. case m of JObj ps \<Rightarrow> JObj (mapSet ''summary'' (JStr ''x'') ps)
                       | _ \<Rightarrow> JObj [(''summary'', JStr ''x'')])
        (\<lambda>req. VersionMismatch 7 (JStr ''{oops''))
        (newApiSessionClient ''s1'' (JObj [(''path'', JStr ''/tmp'')]) 5 JNull 0)))
      = JObj [(''path'', JStr ''/tmp'')]
   \<and> snd (metadataAttempt Map.empty
        (\<lambda>m. case m of JObj ps \<Rightarrow> JObj (mapSet ''summary'' (JStr ''x'') ps)
                       | _ \<Rightarrow> JObj [(''summary'', JStr ''x'')])
        (\<lambda>req. VersionMismatch 7 (JStr ''{oops''))
        (newApiSessionClient ''s1'' (JObj [(''path'', JStr ''/tmp'')]) 5 JNull 0))
      = Some JsonSyntaxError
   \<and> metadataRequest
        (\<lambda>m. case m of JObj ps \<Rightarrow> JObj (mapSet ''summary'' (JStr ''x'') ps)
                       | _ \<Rightarrow> JObj [(''summary'', JStr ''x'')])
        (fst (metadataAttempt Map.empty
          (\<lambda>m. case m of JObj ps \<Rightarrow> JObj (mapSet ''summary'' (JStr ''x'') ps)
                         | _ \<Rightarrow> JObj [(''summary'', JStr ''x'')])
          (\<lambda>req. VersionMismatch 7 (JStr ''{oops''))
          (newApiSessionClient ''s1'' (JObj [(''path'', JStr ''/tmp'')]) 5 JNull 0)))
      = JObj [(''sid'', JStr ''s1''), (''expectedVersion'', JNum 7),
              (''metadata'', JStr ''{"path":"/tmp","summary":"x"}'')]\<close>
  by (simp add: metadataAttempt_def metadataRequest_def metadataAnswer_def decodeDocument_def
        socketEmit_def jsonString_def quoteJSON_def escapeChar_def Let_def
        newApiSessionClient_def)

text \<open>
  Property X1. A \<^verbatim>\<open>version-mismatch\<close> answer assigns the version before it parses the
  document. When
  the version is newer and the document is a string that \<^verbatim>\<open>JSON.parse\<close> rejects, the
  attempt throws with the local version advanced and the local document as it was.
\<close>

theorem mismatch_unparsed_document:
  "metadataVersion s < ver \<and> parse str = None \<longrightarrow>
     metadataAnswer parse (VersionMismatch ver (JStr str)) s
       = (s\<lparr>metadataVersion := ver\<rparr>, Some JsonSyntaxError)"
  by (simp add: metadataAnswer_def decodeDocument_def)

theorem mismatch_unparsed_document_witness:
  "metadataAnswer Map.empty (VersionMismatch 7 (JStr ''{oops''))
      (newApiSessionClient ''s1'' (JObj []) 5 JNull 0)
     = ((newApiSessionClient ''s1'' (JObj []) 5 JNull 0)\<lparr>metadataVersion := 7\<rparr>,
        Some JsonSyntaxError)"
  using mismatch_unparsed_document
    [of "newApiSessionClient ''s1'' (JObj []) 5 JNull 0" 7 Map.empty "''{oops''"]
  by (simp add: newApiSessionClient_def)

section \<open>Sends while the socket is disconnected\<close>

text \<open>
  Property X2.
  \<^verbatim>\<open>sendCodexMessage\<close> on a client whose socket is not connected writes one log line and
  does nothing else; on a connected client it makes one \<^verbatim>\<open>socket.emit('message', ...)\<close>
  call and writes no log line.
\<close>

theorem sendCodexMessage_guarded:
  "(\<not> connected s \<longrightarrow>
      sendCodexMessage body s = s\<lparr>logged := logged s @ [''[API] Socket not connected, cannot send message.'']\<rparr>)
   \<and> (connected s \<longrightarrow>
      logged (sendCodexMessage body s) = logged s
      \<and> (\<exists>payload. sockCalls (sendCodexMessage body s) = sockCalls s @ [Emit ''message'' payload]))"
  by (simp add: sendCodexMessage_def Let_def logDebug_def socketEmit_def)

theorem sendCodexMessage_guarded_witness:
  "sendCodexMessage JNull (newApiSessionClient ''s1'' (JObj []) 0 JNull 0)
     = (newApiSessionClient ''s1'' (JObj []) 0 JNull 0)
         \<lparr>logged := [''[API] Socket not connected, cannot send message.'']\<rparr>
   \<and> logged (sendCodexMessage JNull
        ((newApiSessionClient ''s1'' (JObj []) 0 JNull 0)\<lparr>connected := True\<rparr>)) = []"
  using sendCodexMessage_guarded [of "newApiSessionClient ''s1'' (JObj []) 0 JNull 0" JNull]
    sendCodexMessage_guarded
      [of "(newApiSessionClient ''s1'' (JObj []) 0 JNull 0)\<lparr>connected := True\<rparr>" JNull]
  by (simp add: newApiSessionClient_def)

lemma sendAgentMessage_emits:
  "sockCalls (sendAgentMessage provider body s) \<noteq> sockCalls s"
  by (simp add: sendAgentMessage_def Let_def socketEmit_def logDebug_def)

lemma sendUsageData_emits:
  "sockCalls (sendUsageData u s) \<noteq> sockCalls s"
  by (simp add: sendUsageData_def Let_def socketEmit_def logDebug_def)

text \<open>
  Claim C8 does not hold of \<^verbatim>\<open>sendAgentMessage\<close> and \<^verbatim>\<open>sendUsageData\<close>. On a client whose
  socket is not connected, \<^verbatim>\<open>sendCodexMessage\<close> writes a log line and calls nothing on
  the socket, as the claim says. \<^verbatim>\<open>sendAgentMessage\<close> and \<^verbatim>\<open>sendUsageData\<close> have no
  such test: each calls \<^verbatim>\<open>socket.emit\<close> with its payload as it does when connected.
  \<^verbatim>\<open>keepAlive\<close> has no test either and hands its payload to \<^verbatim>\<open>socket.volatile.emit\<close>.
\<close>

theorem sends_while_disconnected:
  \<open>connected (newApiSessionClient ''s1'' (JObj []) 0 JNull 0) = False
   \<and> sendCodexMessage (JObj [(''type'', JStr ''message''), (''message'', JStr ''hi'')])
        (newApiSessionClient ''s1'' (JObj []) 0 JNull 0)
      = (newApiSessionClient ''s1'' (JObj []) 0 JNull 0)
          \<lparr>logged := [''[API] Socket not connected, cannot send message.'']\<rparr>
   \<and> sockCalls (sendAgentMessage Gemini
          (JObj [(''type'', JStr ''message''), (''message'', JStr ''hi'')])
          (newApiSessionClient ''s1'' (JObj []) 0 JNull 0))
      = [Emit ''message''
           (JObj [(''sid'', JStr ''s1''),
                  (''message'', JStr ''{"role":"agent","content":{"type":"acp","provider":"gemini","data":{"type":"message","message":"hi"}},"meta":{"sentFrom":"cli"}}'')])]
   \<and> sockCalls (sendUsageData
          \<lparr>input_tokens = 3, output_tokens = 4,
            cache_creation_input_tokens = None, cache_read_input_tokens = Some 5\<rparr>
          (newApiSessionClient ''s1'' (JObj []) 0 JNull 0))
      = [Emit ''usage-report''
           (JObj [(''key'', JStr ''claude-session''), (''sessionId'', JStr ''s1''),
                  (''tokens'', JObj [(''total'', JNum 12), (''input'', JNum 3),
                                     (''output'', JNum 4), (''cache_creation'', JNum 0),
                                     (''cache_read'', JNum 5)]),
                  (''cost'', JObj [(''total'', JNum 0), (''input'', JNum 0),
                                   (''output'', JNum 0)])])]
   \<and> sockCalls (keepAlive False 1000 True ''remote''
          (newApiSessionClient ''s1'' (JObj []) 0 JNull 0))
      = [VolatileEmit ''session-alive''
           (JObj [(''sid'', JStr ''s1''), (''time'', JNum 1000),
                  (''thinking'', JBool True), (''mode'', JStr ''remote'')])]
   \<and> logged (keepAlive False 1000 True ''remote''
          (newApiSessionClient ''s1'' (JObj []) 0 JNull 0)) = []\<close>
  by (simp add: newApiSessionClient_def sendCodexMessage_def sendAgentMessage_def
        sendUsageData_def keepAlive_def Let_def socketEmit_def logDebug_def messagePayload_def
        jsonString_def orZero_def quoteJSON_def escapeChar_def)

end
